theory Spec2Isabelle
  imports Complex_Main "HOL-Library.List_Lexorder"
begin

section \<open>JavaScript numbers\<close>

text \<open>
  A JavaScript number is a finite value, one of the two infinities, or NaN. Finite
  values are modelled as reals: rounding to binary64 and the sign of zero are not
  modelled (zero is +0). Division and the comparisons follow the language's rules for
  the special values: \<open>x / 0\<close> is an infinity of the sign of \<open>x\<close>, \<open>0 / 0\<close> is NaN, and
  every comparison with NaN is false.
\<close>

datatype jsnum = Num real | PosInf | NegInf | NaN

fun js_div :: "jsnum \<Rightarrow> jsnum \<Rightarrow> jsnum" where
  "js_div NaN _ = NaN"
| "js_div _ NaN = NaN"
| "js_div (Num x) (Num y) =
     (if y = 0 then (if x = 0 then NaN else if 0 < x then PosInf else NegInf)
      else Num (x / y))"
| "js_div (Num x) PosInf = Num 0"
| "js_div (Num x) NegInf = Num 0"
| "js_div PosInf (Num y) = (if y < 0 then NegInf else PosInf)"
| "js_div NegInf (Num y) = (if y < 0 then PosInf else NegInf)"
| "js_div PosInf PosInf = NaN"
| "js_div PosInf NegInf = NaN"
| "js_div NegInf PosInf = NaN"
| "js_div NegInf NegInf = NaN"

fun js_lt :: "jsnum \<Rightarrow> jsnum \<Rightarrow> bool" where
  "js_lt NaN _ = False"
| "js_lt _ NaN = False"
| "js_lt (Num x) (Num y) = (x < y)"
| "js_lt (Num x) PosInf = True"
| "js_lt (Num x) NegInf = False"
| "js_lt PosInf _ = False"
| "js_lt NegInf NegInf = False"
| "js_lt NegInf _ = True"

definition js_gt :: "jsnum \<Rightarrow> jsnum \<Rightarrow> bool" where
  "js_gt a b = js_lt b a"

fun js_le :: "jsnum \<Rightarrow> jsnum \<Rightarrow> bool" where
  "js_le NaN _ = False"
| "js_le _ NaN = False"
| "js_le a b = (\<not> js_lt b a)"

definition js_ge :: "jsnum \<Rightarrow> jsnum \<Rightarrow> bool" where
  "js_ge a b = js_le b a"

text \<open>Truthiness of a number: everything but zero and NaN.\<close>

fun truthy_num :: "jsnum \<Rightarrow> bool" where
  "truthy_num (Num x) = (x \<noteq> 0)"
| "truthy_num NaN = False"
| "truthy_num _ = True"

text \<open>A property that is \<open>undefined\<close> (\<open>None\<close>) converts to NaN in arithmetic.\<close>

fun to_num :: "real option \<Rightarrow> jsnum" where
  "to_num None = NaN"
| "to_num (Some x) = Num x"

section \<open>Congestion level from the speed ratio\<close>

text \<open>
  \<^verbatim>\<open>TrafficDataService.calculateTrafficLevel(currentSpeed, freeFlowSpeed)\<close>:
  the ratio is compared with 0.8, 0.5 and 0.3 in that order.
\<close>

definition calculateTrafficLevel :: "jsnum \<Rightarrow> jsnum \<Rightarrow> string" where
  "calculateTrafficLevel currentSpeed freeFlowSpeed =
     (let ratio = js_div currentSpeed freeFlowSpeed in
      if js_gt ratio (Num 0.8) then ''low''
      else if js_gt ratio (Num 0.5) then ''medium''
      else if js_gt ratio (Num 0.3) then ''high''
      else ''severe'')"

text \<open>
  The record handed to the \<^verbatim>\<open>TrafficData.beforeCreate\<close> hook. Only the three fields
  the hook reads are kept; \<open>None\<close> is a field that is null or not given.
\<close>

record trafficDataInstance =
  congestion_level :: "string option"
  current_speed :: "jsnum option"
  free_flow_speed :: "jsnum option"

fun truthy_str_opt :: "string option \<Rightarrow> bool" where
  "truthy_str_opt None = False"
| "truthy_str_opt (Some s) = (s \<noteq> [])"

fun truthy_num_opt :: "jsnum option \<Rightarrow> bool" where
  "truthy_num_opt None = False"
| "truthy_num_opt (Some n) = truthy_num n"

text \<open>
  The hook sets \<open>congestion_level\<close> only when none was provided and both speeds are
  truthy; otherwise the instance is left as it is.
\<close>

definition beforeCreate :: "trafficDataInstance \<Rightarrow> trafficDataInstance" where
  "beforeCreate trafficData =
     (if \<not> truthy_str_opt (congestion_level trafficData)
         \<and> truthy_num_opt (current_speed trafficData)
         \<and> truthy_num_opt (free_flow_speed trafficData)
      then
        (let ratio = js_div (the (current_speed trafficData)) (the (free_flow_speed trafficData)) in
         if js_gt ratio (Num 0.8) then trafficData\<lparr>congestion_level := Some ''low''\<rparr>
         else if js_gt ratio (Num 0.5) then trafficData\<lparr>congestion_level := Some ''medium''\<rparr>
         else if js_gt ratio (Num 0.3) then trafficData\<lparr>congestion_level := Some ''high''\<rparr>
         else trafficData\<lparr>congestion_level := Some ''severe''\<rparr>)
      else trafficData)"

section \<open>Arithmetic on JavaScript numbers\<close>

fun js_neg :: "jsnum \<Rightarrow> jsnum" where
  "js_neg (Num x) = Num (- x)"
| "js_neg PosInf = NegInf"
| "js_neg NegInf = PosInf"
| "js_neg NaN = NaN"

fun js_add :: "jsnum \<Rightarrow> jsnum \<Rightarrow> jsnum" where
  "js_add NaN _ = NaN"
| "js_add _ NaN = NaN"
| "js_add (Num x) (Num y) = Num (x + y)"
| "js_add PosInf NegInf = NaN"
| "js_add NegInf PosInf = NaN"
| "js_add PosInf _ = PosInf"
| "js_add NegInf _ = NegInf"
| "js_add (Num x) b = b"

definition js_sub :: "jsnum \<Rightarrow> jsnum \<Rightarrow> jsnum" where
  "js_sub a b = js_add a (js_neg b)"

text \<open>Multiplication by a finite constant, as in \<^verbatim>\<open>adjustedSpeed *= 0.9\<close>.\<close>

fun js_scale :: "jsnum \<Rightarrow> real \<Rightarrow> jsnum" where
  "js_scale (Num x) k = Num (x * k)"
| "js_scale NaN k = NaN"
| "js_scale PosInf k = (if k = 0 then NaN else if 0 < k then PosInf else NegInf)"
| "js_scale NegInf k = (if k = 0 then NaN else if 0 < k then NegInf else PosInf)"

text \<open>\<^verbatim>\<open>Math.round\<close>: the nearest integer, halves towards plus infinity.\<close>

fun js_round :: "jsnum \<Rightarrow> jsnum" where
  "js_round (Num x) = Num (of_int \<lfloor>x + 1 / 2\<rfloor>)"
| "js_round n = n"

section \<open>Browser side: segments and the history summaries\<close>

text \<open>
  A segment as the browser code reads it: the congestion bucket (any string) and the
  current speed (a finite number).
\<close>

record segment =
  trafficLevel :: string
  currentSpeed :: real

text \<open>
  \<^verbatim>\<open>PredictiveWarningSystem.calculateAverageSpeed(segments)\<close>; \<open>None\<close> is a null or
  undefined argument. The sum is the \<^verbatim>\<open>reduce\<close> from 0, the quotient is rounded.
\<close>

definition calculateAverageSpeed :: "segment list option \<Rightarrow> jsnum" where
  "calculateAverageSpeed segments =
     (case segments of
        None \<Rightarrow> Num 0
      | Some segs \<Rightarrow>
          if length segs = 0 then Num 0
          else
            (let totalSpeed = foldl (\<lambda>sum segment. sum + currentSpeed segment) 0 segs
             in js_round (js_div (Num totalSpeed) (Num (real (length segs))))))"

text \<open>
  The counter object \<^verbatim>\<open>{ low: 0, medium: 0, high: 0, severe: 0 }\<close> is a function from
  its four keys; \<^verbatim>\<open>hasOwnProperty\<close> is membership in the keys.
\<close>

definition levelKeys :: "string list" where
  "levelKeys = [''low'', ''medium'', ''high'', ''severe'']"

definition countLevel :: "(string \<Rightarrow> nat) \<Rightarrow> string \<Rightarrow> (string \<Rightarrow> nat)" where
  "countLevel levelCounts lv =
     (if lv \<in> set levelKeys then levelCounts(lv := levelCounts lv + 1) else levelCounts)"

definition calculateOverallCongestion :: "segment list option \<Rightarrow> string" where
  "calculateOverallCongestion segments =
     (case segments of
        None \<Rightarrow> ''low''
      | Some segs \<Rightarrow>
          if length segs = 0 then ''low''
          else
            (let levelCounts = foldl (\<lambda>lc segment. countLevel lc (trafficLevel segment)) (\<lambda>_. 0) segs;
                 total = Num (real (length segs))
             in if js_gt (js_div (Num (real (levelCounts ''severe''))) total) (Num 0.3) then ''severe''
                else if js_gt (js_div (Num (real (levelCounts ''high''))) total) (Num 0.4) then ''high''
                else if js_gt (js_div (Num (real (levelCounts ''medium''))) total) (Num 0.5) then ''medium''
                else ''low''))"

section \<open>Browser side: the warning system\<close>

text \<open>
  The five keys of \<^verbatim>\<open>alertLevels\<close>. Every warning built in the repository carries one
  of them, so the lookups \<^verbatim>\<open>this.alertLevels[warning.level]\<close> are defined.
\<close>

datatype alert_level = CRITICAL | HIGH | MEDIUM | LOW | INFO

text \<open>
  A message is kept as its template: the literal pieces and the values put into the
  holes, not the rendered text (the rendering of numbers is not modelled).
\<close>

datatype fmt = Lit string | Count nat | Fixed1 jsnum | Minutes int

text \<open>
  A warning object. Timestamps are milliseconds since the epoch (the ISO string of the
  source parses back to the same instant). The last three fields are only set on
  predictive warnings, \<open>severity\<close> only on the others.
\<close>

record warning =
  level :: alert_level
  title :: string
  message :: "fmt list"
  location :: string
  timestamp :: int
  wtype :: string
  severity :: "jsnum option"
  predictionTime :: "int option"
  factors :: "string list option"
  confidence :: "jsnum option"

text \<open>
  \<^verbatim>\<open>WarningSystem.analyzeTrafficFlow(segments)\<close>; \<open>now\<close> is the clock read by
  \<^verbatim>\<open>new Date()\<close>. The four \<^verbatim>\<open>if\<close>s push in the order of the source.
\<close>

definition analyzeTrafficFlow :: "int \<Rightarrow> segment list \<Rightarrow> warning list" where
  "analyzeTrafficFlow now segments =
     (let congestionLevels = map trafficLevel segments;
          speeds = map currentSpeed segments;
          severeCount = length (filter (\<lambda>lv. lv = ''severe'') congestionLevels);
          highCount = length (filter (\<lambda>lv. lv = ''high'') congestionLevels);
          avgSpeed = js_div (Num (foldl (\<lambda>a b. a + b) 0 speeds)) (Num (real (length speeds)));
          gridlockSegments = length (filter (\<lambda>s. currentSpeed s < 5) segments)
      in (if severeCount > 3 then
            [\<lparr>level = CRITICAL, title = ''Severe Traffic Congestion'',
              message = [Count severeCount, Lit '' road segments experiencing severe congestion''],
              location = ''Multiple locations'', timestamp = now, wtype = ''congestion'',
              severity = Some (Num (real severeCount)), predictionTime = None, factors = None,
              confidence = None\<rparr>]
          else [])
       @ (if highCount > 5 then
            [\<lparr>level = HIGH, title = ''High Traffic Volume'',
              message = [Count highCount, Lit '' road segments with heavy traffic''],
              location = ''City-wide'', timestamp = now, wtype = ''congestion'',
              severity = Some (Num (real highCount)), predictionTime = None, factors = None,
              confidence = None\<rparr>]
          else [])
       @ (if js_lt avgSpeed (Num 15) then
            [\<lparr>level = HIGH, title = ''Very Low Average Speed'',
              message = [Lit ''City-wide average speed: '', Fixed1 avgSpeed, Lit '' km/h''],
              location = ''Nairobi metropolitan'', timestamp = now, wtype = ''speed'',
              severity = Some avgSpeed, predictionTime = None, factors = None,
              confidence = None\<rparr>]
          else [])
       @ (if gridlockSegments > 0 then
            [\<lparr>level = CRITICAL, title = ''Gridlock Risk Detected'',
              message = [Count gridlockSegments, Lit '' segments at near-standstill speeds''],
              location = ''Critical intersections'', timestamp = now, wtype = ''gridlock'',
              severity = Some (Num (real gridlockSegments)), predictionTime = None, factors = None,
              confidence = None\<rparr>]
          else []))"

text \<open>
  The state of the warning system: the alert list, and a log of the warnings handed to
  \<^verbatim>\<open>triggerWarning\<close> (notification, sound, indicators: the page itself is not
  modelled).
\<close>

record warningSystem =
  alerts :: "warning list"
  triggered :: "warning list"

definition triggerWarning :: "warning \<Rightarrow> warningSystem \<Rightarrow> warningSystem" where
  "triggerWarning w s = s\<lparr>triggered := triggered s @ [w]\<rparr>"

text \<open>
  \<^verbatim>\<open>cleanupOldWarnings\<close> keeps the alerts whose age in minutes at the clock reading
  \<open>now\<close> is below 30.
\<close>

definition cleanupOldWarnings :: "int \<Rightarrow> warningSystem \<Rightarrow> warningSystem" where
  "cleanupOldWarnings now s =
     s\<lparr>alerts := filter (\<lambda>alert. real_of_int (now - timestamp alert) / (1000 * 60) < 30) (alerts s)\<rparr>"

text \<open>
  \<^verbatim>\<open>WarningSystem.processWarnings(warnings)\<close>: the new warnings are selected against
  the alerts as they are at the call, then pushed and triggered one by one; the display
  update changes nothing in the state; the clean-up runs last.
\<close>

definition sameAlert :: "warning \<Rightarrow> warning \<Rightarrow> bool" where
  "sameAlert existing w = (title existing = title w \<and> location existing = location w)"

definition processWarnings :: "int \<Rightarrow> warning list \<Rightarrow> warningSystem \<Rightarrow> warningSystem" where
  "processWarnings now warnings s =
     (let newWarnings = filter (\<lambda>w. \<not> list_ex (\<lambda>existing. sameAlert existing w) (alerts s)) warnings;
          s1 = foldl (\<lambda>st w. triggerWarning w (st\<lparr>alerts := alerts st @ [w]\<rparr>)) s newWarnings
      in cleanupOldWarnings now s1)"

section \<open>Browser side: the predictive warning system\<close>

text \<open>
  The local calendar of the browser: the hour and the day of the week of an instant
  (\<^verbatim>\<open>Date.prototype.getHours\<close>, \<^verbatim>\<open>getDay\<close>). It depends on the time zone and is a
  parameter.
\<close>

record calendar =
  getHours :: "int \<Rightarrow> int"
  getDay :: "int \<Rightarrow> int"

text \<open>The traffic object handed to the collector; \<open>segments\<close> may be missing.\<close>

record payload =
  segments :: "segment list option"

text \<open>One entry of \<^verbatim>\<open>historicalData\<close>. The incident objects are not inspected.\<close>

record 'i dataPoint =
  dp_timestamp :: int
  trafficSegments :: "segment list"
  incidentCount :: nat
  incidents :: "'i list"
  averageSpeed :: jsnum
  congestionLevel :: string
  hour :: int
  dayOfWeek :: int
  weather :: string

record prediction =
  p_timestamp :: int
  minutesAhead :: int
  p_congestionLevel :: string
  p_confidence :: real
  predictedSpeed :: jsnum
  incidentProbability :: real
  riskLevel :: string
  p_factors :: "string list"

record 'i predictiveWarningSystem =
  historicalData :: "'i dataPoint list"
  predictions :: "prediction list"

text \<open>
  The two objects the page keeps in \<^verbatim>\<open>window\<close>; \<^verbatim>\<open>window.warningSystem\<close> may be
  unset.
\<close>

record 'i window =
  predictive :: "'i predictiveWarningSystem"
  window_warningSystem :: "warningSystem option"

datatype js_error = TypeError

text \<open>
  \<^verbatim>\<open>storeHistoricalData(trafficData, incidents)\<close>. A null or undefined argument makes
  the property reads raise before anything is stored. \<open>now\<close> is the clock when the
  data point is stamped, \<open>now'\<close> the later reading of \<^verbatim>\<open>Date.now()\<close> for the
  seven-day limit.
\<close>

definition storeHistoricalData ::
  "calendar \<Rightarrow> int \<Rightarrow> int \<Rightarrow> payload option \<Rightarrow> 'i list option
   \<Rightarrow> 'i predictiveWarningSystem \<Rightarrow> js_error + 'i predictiveWarningSystem" where
  "storeHistoricalData cal now now' trafficData incidentList s =
     (case trafficData of
        None \<Rightarrow> Inl TypeError
      | Some td \<Rightarrow>
          (case incidentList of
             None \<Rightarrow> Inl TypeError
           | Some incs \<Rightarrow>
               (let dataPoint =
                      \<lparr>dp_timestamp = now,
                       trafficSegments = (case segments td of None \<Rightarrow> [] | Some sg \<Rightarrow> sg),
                       incidentCount = length incs,
                       incidents = incs,
                       averageSpeed = calculateAverageSpeed (segments td),
                       congestionLevel = calculateOverallCongestion (segments td),
                       hour = getHours cal now,
                       dayOfWeek = getDay cal now,
                       weather = ''clear''\<rparr>;
                    pushed = historicalData s @ [dataPoint];
                    weekAgo = now' - 7 * 24 * 60 * 60 * 1000
                in Inr (s\<lparr>historicalData := filter (\<lambda>d. dp_timestamp d > weekAgo) pushed\<rparr>))))"

definition calculateRecentTrend :: "'i predictiveWarningSystem \<Rightarrow> string" where
  "calculateRecentTrend s =
     (let recent = drop (length (historicalData s) - 6) (historicalData s) in
      if length recent < 3 then ''stable''
      else
        (let speeds = map averageSpeed recent;
             firstHalf = take (length speeds div 2) speeds;
             secondHalf = drop (length speeds div 2) speeds;
             firstAvg = js_div (foldl js_add (Num 0) firstHalf) (Num (real (length firstHalf)));
             secondAvg = js_div (foldl js_add (Num 0) secondHalf) (Num (real (length secondHalf)));
             change = js_div (js_sub secondAvg firstAvg) firstAvg
         in if js_lt change (Num (- 0.2)) then ''deteriorating''
            else if js_gt change (Num 0.2) then ''improving''
            else ''stable''))"

record currentConditions =
  cc_timestamp :: int
  cc_averageSpeed :: jsnum
  cc_congestionLevel :: string
  cc_incidentCount :: nat
  cc_hour :: int
  cc_dayOfWeek :: int
  recentTrend :: string

text \<open>
  \<^verbatim>\<open>getCurrentConditions\<close> reads the last entry of the history; it is only called
  with at least ten entries.
\<close>

definition getCurrentConditions :: "calendar \<Rightarrow> int \<Rightarrow> 'i predictiveWarningSystem \<Rightarrow> currentConditions" where
  "getCurrentConditions cal now s =
     (let latest = last (historicalData s) in
      \<lparr>cc_timestamp = dp_timestamp latest,
       cc_averageSpeed = averageSpeed latest,
       cc_congestionLevel = congestionLevel latest,
       cc_incidentCount = incidentCount latest,
       cc_hour = getHours cal now,
       cc_dayOfWeek = getDay cal now,
       recentTrend = calculateRecentTrend s\<rparr>)"

definition similarConditions ::
  "currentConditions \<Rightarrow> int \<Rightarrow> 'i dataPoint list \<Rightarrow> 'i dataPoint list" where
  "similarConditions cc targetHour hist =
     filter (\<lambda>d. \<bar>hour d - targetHour\<bar> \<le> 1 \<and> dayOfWeek d = cc_dayOfWeek cc) hist"

text \<open>\<^verbatim>\<open>CongestionModel.predict\<close>: the level and the confidence.\<close>

definition congestion_predict ::
  "currentConditions \<Rightarrow> int \<Rightarrow> 'i dataPoint list \<Rightarrow> string \<times> real" where
  "congestion_predict cc targetHour hist =
     (let similar = similarConditions cc targetHour hist in
      if length similar = 0 then (''medium'', 0.3)
      else
        (let levelCounts = foldl countLevel (\<lambda>_. 0) (map congestionLevel similar);
             maxCount = Max (set (map levelCounts levelKeys));
             predictedLevel = (case find (\<lambda>key. levelCounts key = maxCount) levelKeys of
                                 Some key \<Rightarrow> key | None \<Rightarrow> ''undefined'');
             conf = min 0.9 (real (length similar) / 20)
         in (predictedLevel, conf)))"

text \<open>\<^verbatim>\<open>SpeedModel.predict\<close>: the speed and the confidence.\<close>

definition speed_predict ::
  "currentConditions \<Rightarrow> int \<Rightarrow> 'i dataPoint list \<Rightarrow> jsnum \<times> real" where
  "speed_predict cc targetHour hist =
     (let similar = similarConditions cc targetHour hist in
      if length similar = 0 then (cc_averageSpeed cc, 0.3)
      else
        (let speeds = map averageSpeed similar;
             avgSpeed = js_div (foldl js_add (Num 0) speeds) (Num (real (length speeds)));
             adjustedSpeed = (if recentTrend cc = ''deteriorating'' then js_scale avgSpeed 0.9
                              else if recentTrend cc = ''improving'' then js_scale avgSpeed 1.1
                              else avgSpeed);
             conf = min 0.9 (real (length similar) / 20)
         in (js_round adjustedSpeed, conf)))"

text \<open>\<^verbatim>\<open>IncidentModel.predict\<close>: the probability and the confidence.\<close>

definition incident_predict ::
  "currentConditions \<Rightarrow> int \<Rightarrow> 'i dataPoint list \<Rightarrow> real \<times> real" where
  "incident_predict cc targetHour hist =
     (let similar = similarConditions cc targetHour hist in
      if length similar = 0 then (0.1, 0.3)
      else
        (let incidentCounts = map (\<lambda>d. real (incidentCount d)) similar;
             avgIncidents = foldl (\<lambda>a b. a + b) 0 incidentCounts / real (length incidentCounts);
             probability = min 0.8 (avgIncidents * 0.1);
             probability1 = (if (targetHour \<ge> 7 \<and> targetHour \<le> 9) \<or> (targetHour \<ge> 17 \<and> targetHour \<le> 19)
                             then probability * 1.5 else probability);
             probability2 = (if cc_incidentCount cc > 2 then probability1 * 1.2 else probability1);
             conf = min 0.9 (real (length similar) / 20)
         in (min 0.9 probability2, conf)))"

definition mapCongestionToRisk :: "string \<Rightarrow> real" where
  "mapCongestionToRisk lv =
     (if lv = ''low'' then 0.2 else if lv = ''medium'' then 0.4
      else if lv = ''high'' then 0.7 else if lv = ''severe'' then 0.9 else 0.3)"

definition calculateOverallRisk :: "string \<Rightarrow> real \<Rightarrow> string" where
  "calculateOverallRisk congestionLv incidentProb =
     (let congestionRisk = mapCongestionToRisk congestionLv;
          incidentRisk = incidentProb;
          combinedRisk = (congestionRisk * 0.7) + (incidentRisk * 0.3)
      in if combinedRisk > 0.8 then ''CRITICAL''
         else if combinedRisk > 0.6 then ''HIGH''
         else if combinedRisk > 0.4 then ''MEDIUM''
         else ''LOW'')"

definition identifyRiskFactors :: "currentConditions \<Rightarrow> real \<Rightarrow> string list" where
  "identifyRiskFactors cc conf =
       (if cc_hour cc \<ge> 7 \<and> cc_hour cc \<le> 9 then [''Morning rush hour''] else [])
     @ (if cc_hour cc \<ge> 17 \<and> cc_hour cc \<le> 19 then [''Evening rush hour''] else [])
     @ (if recentTrend cc = ''deteriorating'' then [''Deteriorating traffic conditions''] else [])
     @ (if cc_incidentCount cc > 2 then [''Multiple active incidents''] else [])
     @ (if conf < 0.6 then [''Low prediction confidence''] else [])
     @ (if cc_dayOfWeek cc = 1 \<or> cc_dayOfWeek cc = 5 then [''High traffic day''] else [])"

text \<open>One prediction for each of 15, 30, 45 and 60 minutes ahead.\<close>

definition generatePredictions ::
  "calendar \<Rightarrow> int \<Rightarrow> 'i predictiveWarningSystem \<Rightarrow> currentConditions \<Rightarrow> prediction list" where
  "generatePredictions cal now s cc =
     map (\<lambda>ahead.
            (let predictionTime = now + ahead * 60 * 1000;
                 hr = getHours cal predictionTime;
                 congestionPrediction = congestion_predict cc hr (historicalData s);
                 speedPrediction = speed_predict cc hr (historicalData s);
                 incidentProb = incident_predict cc hr (historicalData s)
             in \<lparr>p_timestamp = predictionTime,
                 minutesAhead = ahead,
                 p_congestionLevel = fst congestionPrediction,
                 p_confidence = snd congestionPrediction,
                 predictedSpeed = fst speedPrediction,
                 incidentProbability = fst incidentProb,
                 riskLevel = calculateOverallRisk (fst congestionPrediction) (fst incidentProb),
                 p_factors = identifyRiskFactors cc (snd congestionPrediction)\<rparr>))
         [15, 30, 45, 60]"

definition predictiveWarning :: "int \<Rightarrow> prediction \<Rightarrow> warning" where
  "predictiveWarning now p =
     \<lparr>level = (if riskLevel p = ''CRITICAL'' then HIGH else MEDIUM),
      title = ''Predictive Traffic Alert'',
      message = [Lit (riskLevel p), Lit '' traffic conditions expected in '',
                 Minutes (minutesAhead p), Lit '' minutes''],
      location = ''City-wide forecast'',
      timestamp = now,
      wtype = ''predictive'',
      severity = None,
      predictionTime = Some (p_timestamp p),
      factors = Some (p_factors p),
      confidence = Some (js_round (Num (p_confidence p * 100)))\<rparr>"

definition processPredictiveWarnings :: "int \<Rightarrow> prediction list \<Rightarrow> 'i window \<Rightarrow> 'i window" where
  "processPredictiveWarnings now preds win =
     (let highRiskPredictions = filter (\<lambda>p. riskLevel p = ''CRITICAL'' \<or> riskLevel p = ''HIGH'') preds
      in foldl (\<lambda>w p. case window_warningSystem w of
                         None \<Rightarrow> w
                       | Some ws \<Rightarrow>
                           w\<lparr>window_warningSystem :=
                               Some (processWarnings now [predictiveWarning now p] ws)\<rparr>)
           win highRiskPredictions)"

text \<open>\<^verbatim>\<open>updatePredictions\<close>: nothing is done with fewer than ten data points.\<close>

definition updatePredictions :: "calendar \<Rightarrow> int \<Rightarrow> 'i window \<Rightarrow> 'i window" where
  "updatePredictions cal now win =
     (if length (historicalData (predictive win)) < 10 then win
      else
        (let currentConds = getCurrentConditions cal now (predictive win);
             preds = generatePredictions cal now (predictive win) currentConds;
             win1 = win\<lparr>predictive := (predictive win)\<lparr>predictions := preds\<rparr>\<rparr>
         in processPredictiveWarnings now preds win1))"

section \<open>Strings as numbers, and splitting\<close>

text \<open>
  \<^verbatim>\<open>Number(s)\<close> and the implicit conversion of a string compared with a number: the
  string is trimmed of white space; the empty string is 0; an optionally signed decimal
  literal (with optional fraction and exponent) or \<^verbatim>\<open>Infinity\<close>, or an unsigned binary,
  octal or hexadecimal literal, has its value; anything else is NaN. Characters are
  bytes, so only the ASCII white space is trimmed.
\<close>

definition is_ws :: "char \<Rightarrow> bool" where
  "is_ws c = ((of_char c :: nat) \<in> {9, 10, 11, 12, 13, 32})"

definition trim :: "string \<Rightarrow> string" where
  "trim s = rev (dropWhile is_ws (rev (dropWhile is_ws s)))"

definition is_digit :: "char \<Rightarrow> bool" where
  "is_digit c = (48 \<le> (of_char c :: nat) \<and> (of_char c :: nat) \<le> 57)"

text \<open>The value of a digit in a base up to 16, if it is one.\<close>

definition digit_in :: "nat \<Rightarrow> char \<Rightarrow> nat option" where
  "digit_in base c =
     (let n = (of_char c :: nat);
          v = (if 48 \<le> n \<and> n \<le> 57 then Some (n - 48)
               else if 97 \<le> n \<and> n \<le> 102 then Some (n - 87)
               else if 65 \<le> n \<and> n \<le> 70 then Some (n - 55)
               else None)
      in case v of None \<Rightarrow> None | Some d \<Rightarrow> if d < base then Some d else None)"

fun digits_in :: "nat \<Rightarrow> nat \<Rightarrow> string \<Rightarrow> nat option" where
  "digits_in base acc [] = Some acc"
| "digits_in base acc (c # cs) =
     (case digit_in base c of
        None \<Rightarrow> None
      | Some d \<Rightarrow> digits_in base (base * acc + d) cs)"

text \<open>A non-empty run of digits of the base, and nothing else.\<close>

definition all_digits :: "nat \<Rightarrow> string \<Rightarrow> nat option" where
  "all_digits base s = (if s = [] then None else digits_in base 0 s)"

definition parse_nondecimal :: "string \<Rightarrow> real option" where
  "parse_nondecimal s =
     (case s of
        c0 # c1 # ds \<Rightarrow>
          if c0 = CHR ''0'' \<and> (c1 = CHR ''x'' \<or> c1 = CHR ''X'') then map_option real (all_digits 16 ds)
          else if c0 = CHR ''0'' \<and> (c1 = CHR ''o'' \<or> c1 = CHR ''O'') then map_option real (all_digits 8 ds)
          else if c0 = CHR ''0'' \<and> (c1 = CHR ''b'' \<or> c1 = CHR ''B'') then map_option real (all_digits 2 ds)
          else None
      | _ \<Rightarrow> None)"

text \<open>The exponent part: empty, or \<^verbatim>\<open>e\<close> or \<^verbatim>\<open>E\<close>, an optional sign and digits.\<close>

definition parse_exponent :: "string \<Rightarrow> int option" where
  "parse_exponent s =
     (case s of
        [] \<Rightarrow> Some 0
      | c # r \<Rightarrow>
          if c = CHR ''e'' \<or> c = CHR ''E'' then
            (case r of
               s0 # ds \<Rightarrow>
                 if s0 = CHR ''+'' then map_option int (all_digits 10 ds)
                 else if s0 = CHR ''-'' then map_option (\<lambda>n. - int n) (all_digits 10 ds)
                 else map_option int (all_digits 10 r)
             | [] \<Rightarrow> None)
          else None)"

definition parse_unsigned_decimal :: "string \<Rightarrow> jsnum option" where
  "parse_unsigned_decimal s =
     (if s = ''Infinity'' then Some PosInf
      else
        (let ip = takeWhile is_digit s;
             r1 = dropWhile is_digit s;
             fp = (case r1 of c # t \<Rightarrow> if c = CHR ''.'' then takeWhile is_digit t else [] | [] \<Rightarrow> []);
             r2 = (case r1 of c # t \<Rightarrow> if c = CHR ''.'' then dropWhile is_digit t else r1 | [] \<Rightarrow> [])
         in if ip = [] \<and> fp = [] then None
            else
              (case (digits_in 10 0 ip, digits_in 10 0 fp, parse_exponent r2) of
                 (Some i, Some f, Some e) \<Rightarrow>
                   (let m = real i + real f / 10 ^ length fp
                    in Some (Num (if 0 \<le> e then m * 10 ^ nat e else m / 10 ^ nat (- e))))
               | _ \<Rightarrow> None)))"

definition js_Number :: "string \<Rightarrow> jsnum" where
  "js_Number s =
     (let t = trim s in
      if t = [] then Num 0
      else
        (case parse_nondecimal t of
           Some v \<Rightarrow> Num v
         | None \<Rightarrow>
             (case t of
                c # r \<Rightarrow>
                  if c = CHR ''+'' then (case parse_unsigned_decimal r of Some v \<Rightarrow> v | None \<Rightarrow> NaN)
                  else if c = CHR ''-'' then
                    (case parse_unsigned_decimal r of Some v \<Rightarrow> js_neg v | None \<Rightarrow> NaN)
                  else (case parse_unsigned_decimal t of Some v \<Rightarrow> v | None \<Rightarrow> NaN)
              | [] \<Rightarrow> NaN)))"

text \<open>\<^verbatim>\<open>s.split(',')\<close>: the pieces between the separators, at least one.\<close>

fun split_on :: "char \<Rightarrow> string \<Rightarrow> string list" where
  "split_on sep [] = [[]]"
| "split_on sep (c # cs) =
     (if c = sep then [] # split_on sep cs
      else (case split_on sep cs of
              [] \<Rightarrow> [[c]]
            | p # ps \<Rightarrow> (c # p) # ps))"

section \<open>Server side: the incident table and its queries\<close>

text \<open>
  The two enumerated columns of \<^verbatim>\<open>traffic_incidents\<close> that the queries use. The
  database orders an enumerated column by the position of the value in its declaration
  (\<^verbatim>\<open>ENUM('low', 'medium', 'high', 'severe')\<close>).
\<close>

datatype incident_status = Active | Resolved | Monitoring

datatype incident_severity = Low | Medium | High | Severe

fun severity_rank :: "incident_severity \<Rightarrow> int" where
  "severity_rank Low = 0"
| "severity_rank Medium = 1"
| "severity_rank High = 2"
| "severity_rank Severe = 3"

record trafficIncident =
  inc_id :: string
  inc_location :: string
  inc_coordinates :: "real \<times> real"
  inc_type :: string
  inc_severity :: incident_severity
  description :: string
  estimated_duration :: real
  delay_seconds :: real
  status :: incident_status
  verified :: bool
  source :: string
  external_id :: "string option"
  started_at :: int

text \<open>
  The options of a query, as far as the repository uses them: equality conditions joined
  by "and", the ordering columns with their directions, and the limit. \<open>None\<close> is a
  key the options object does not have.
\<close>

datatype condition =
  StatusIs incident_status | TypeIs string | SeverityIs incident_severity | VerifiedIs bool

datatype column = ColSeverity | ColStartedAt

datatype direction = ASC | DESC

record findOptions =
  opt_where :: "condition list option"
  opt_order :: "(column \<times> direction) list option"
  opt_limit :: "nat option"

fun holds :: "condition \<Rightarrow> trafficIncident \<Rightarrow> bool" where
  "holds (StatusIs v) r = (status r = v)"
| "holds (TypeIs v) r = (inc_type r = v)"
| "holds (SeverityIs v) r = (inc_severity r = v)"
| "holds (VerifiedIs v) r = (verified r = v)"

fun column_value :: "column \<Rightarrow> trafficIncident \<Rightarrow> int" where
  "column_value ColSeverity r = severity_rank (inc_severity r)"
| "column_value ColStartedAt r = started_at r"

text \<open>The sort key of a row: one entry per ordering column, negated for DESC.\<close>

definition order_key :: "(column \<times> direction) list \<Rightarrow> trafficIncident \<Rightarrow> int list" where
  "order_key ord r =
     map (\<lambda>(c, d). case d of ASC \<Rightarrow> column_value c r | DESC \<Rightarrow> - column_value c r) ord"

text \<open>
  The query of the object-relational mapper, \<^verbatim>\<open>Model.findAll(options)\<close>, which is a
  library and not part of the repository: the rows that satisfy the conditions, ordered
  by the ordering columns (rows with equal keys stay in table order), cut at the limit.
\<close>

definition findAll :: "findOptions \<Rightarrow> trafficIncident list \<Rightarrow> trafficIncident list" where
  "findAll opts table =
     (let selected = (case opt_where opts of
                        None \<Rightarrow> table
                      | Some conds \<Rightarrow> filter (\<lambda>r. list_all (\<lambda>c. holds c r) conds) table);
          ordered = (case opt_order opts of
                       None \<Rightarrow> selected
                     | Some ord \<Rightarrow> sort_key (order_key ord) selected)
      in case opt_limit opts of None \<Rightarrow> ordered | Some n \<Rightarrow> take n ordered)"

text \<open>
  The object spread \<^verbatim>\<open>{ ...defaultOptions, ...options }\<close>: a key of \<open>options\<close>
  replaces the same key of the defaults.
\<close>

definition spread :: "findOptions \<Rightarrow> findOptions \<Rightarrow> findOptions" where
  "spread defaultOptions opts =
     \<lparr>opt_where = (case opt_where opts of None \<Rightarrow> opt_where defaultOptions | Some w \<Rightarrow> Some w),
      opt_order = (case opt_order opts of None \<Rightarrow> opt_order defaultOptions | Some ord \<Rightarrow> Some ord),
      opt_limit = (case opt_limit opts of None \<Rightarrow> opt_limit defaultOptions | Some n \<Rightarrow> Some n)\<rparr>"

definition findActive :: "findOptions \<Rightarrow> trafficIncident list \<Rightarrow> trafficIncident list" where
  "findActive opts table =
     (let defaultOptions =
            \<lparr>opt_where = Some [StatusIs Active],
             opt_order = Some [(ColSeverity, DESC), (ColStartedAt, DESC)],
             opt_limit = None\<rparr>
      in findAll (spread defaultOptions opts) table)"

text \<open>
  \<^verbatim>\<open>TrafficIncident.prototype.toJSON\<close>: the row with the coordinates as latitude and
  longitude and the minutes since the start.
\<close>

record incidentJSON =
  incident :: trafficIncident
  lat_lng :: "real \<times> real"
  duration_minutes :: int

definition toJSON :: "int \<Rightarrow> trafficIncident \<Rightarrow> incidentJSON" where
  "toJSON now r =
     \<lparr>incident = r,
      lat_lng = (snd (inc_coordinates r), fst (inc_coordinates r)),
      duration_minutes = \<lfloor>real_of_int (now - started_at r) / (1000 * 60)\<rfloor>\<rparr>"

section \<open>Server side: the traffic data service\<close>

text \<open>
  A flow segment of the provider's answer (a missing property is \<open>None\<close>), and the
  segment the service makes of it by adding the congestion bucket.
\<close>

record rawSegment =
  seg_coordinates :: "(real \<times> real) list option"
  seg_currentSpeed :: "real option"
  seg_freeFlowSpeed :: "real option"
  seg_currentTravelTime :: "real option"
  seg_freeFlowTravelTime :: "real option"
  seg_confidence :: "real option"
  seg_roadCategory :: "string option"

record flowSegment = rawSegment +
  seg_trafficLevel :: string

text \<open>
  What \<open>getLiveTrafficData\<close> hands out: the empty array that
  \<open>processTomTomTrafficData\<close> returns for an answer without flow data, or an object
  with a time stamp, a source, an optional message and the segments.
\<close>

record trafficInfo =
  td_timestamp :: int
  td_source :: string
  td_message :: "string option"
  td_segments :: "flowSegment list"

datatype trafficData = EmptyArray | TrafficObject trafficInfo

text \<open>An incident of the provider's answer.\<close>

record tomtomIncident =
  tt_id :: "string option"
  tt_description :: "string option"
  tt_coordinates :: "(real \<times> real) option"
  tt_type :: "string option"
  tt_severity :: "string option"
  tt_estimatedDuration :: "real option"
  tt_delayInSeconds :: "real option"
  tt_startTime :: "int option"

datatype served = FromDb incidentJSON | FromApi tomtomIncident

text \<open>The values kept in the cache. Arrays and objects: all of them are truthy.\<close>

datatype js_value = Traffic trafficData | Incidents "served list"

text \<open>
  A row of \<^verbatim>\<open>traffic_data\<close> as \<open>storeTrafficData\<close> builds it: the three fields the
  creation hook reads, and the rest.
\<close>

record trafficDataRow = trafficDataInstance +
  tr_id :: string
  tr_location :: string
  tr_coordinates :: "real \<times> real"
  vehicle_count :: int
  travel_time :: real
  free_flow_travel_time :: real
  weather_condition :: string
  road_type :: string
  tr_confidence :: real
  data_source :: string
  recorded_at :: int

text \<open>
  The answers of the provider. The body of a flow answer may lack \<^verbatim>\<open>flowSegmentData\<close>,
  or carry something that is not an array.
\<close>

datatype flow_field = NoFlow | FlowNotArray | FlowSegments "rawSegment list"

datatype flow_response = FlowRejected | FlowNoBody | FlowBody flow_field

datatype incidents_response = IncRejected | IncNoBody | IncBody "tomtomIncident list option"

text \<open>
  The surroundings of one call: the configured key, the provider's answers, whether each
  database operation of the call succeeds, the clock, and the generators of identifiers
  and random numbers (indexed by the position of the record being built).
\<close>

record environment =
  tomtom_key :: "string option"
  http_flow :: "string \<Rightarrow> flow_response"
  http_incidents :: incidents_response
  find_ok :: bool
  store_ok :: bool
  fallback_ok :: bool
  clock :: int
  uuidv4 :: "nat \<Rightarrow> string"
  random :: "nat \<Rightarrow> real"

text \<open>
  The state of the service: the cache, the two tables, and the log of the requests sent
  to the provider.
\<close>

record service =
  cache :: "string \<rightharpoonup> js_value"
  traffic_rows :: "trafficDataRow list"
  incident_rows :: "trafficIncident list"
  requests :: "string list"

datatype failure = TypeErr | ConfigError string | RequestError

definition getNairobiBounds :: string where
  "getNairobiBounds = ''-1.4449,36.6786,-1.1629,37.0990''"

definition getFallbackTrafficData :: "int \<Rightarrow> trafficData" where
  "getFallbackTrafficData now =
     TrafficObject \<lparr>td_timestamp = now, td_source = ''fallback'',
                    td_message = Some ''Live traffic data unavailable. Using cached data.'',
                    td_segments = []\<rparr>"

definition processTomTomTrafficData :: "int \<Rightarrow> flow_field \<Rightarrow> failure + trafficData" where
  "processTomTomTrafficData now fsd =
     (case fsd of
        NoFlow \<Rightarrow> Inr EmptyArray
      | FlowNotArray \<Rightarrow> Inl TypeErr
      | FlowSegments raws \<Rightarrow>
          Inr (TrafficObject
                \<lparr>td_timestamp = now, td_source = ''tomtom'', td_message = None,
                 td_segments =
                   map (\<lambda>segment.
                          \<lparr>seg_coordinates = seg_coordinates segment,
                           seg_currentSpeed = seg_currentSpeed segment,
                           seg_freeFlowSpeed = seg_freeFlowSpeed segment,
                           seg_currentTravelTime = seg_currentTravelTime segment,
                           seg_freeFlowTravelTime = seg_freeFlowTravelTime segment,
                           seg_confidence = seg_confidence segment,
                           seg_roadCategory = seg_roadCategory segment,
                           seg_trafficLevel =
                             calculateTrafficLevel (to_num (seg_currentSpeed segment))
                               (to_num (seg_freeFlowSpeed segment))\<rparr>)
                     raws\<rparr>))"

text \<open>A piece of a destructured array in a template: \<^verbatim>\<open>undefined\<close> when it is missing.\<close>

definition piece :: "string list \<Rightarrow> nat \<Rightarrow> string" where
  "piece ps i = (if i < length ps then ps ! i else ''undefined'')"

definition fetchTomTomTraffic ::
  "environment \<Rightarrow> string \<Rightarrow> service \<Rightarrow> (failure + trafficData) \<times> service" where
  "fetchTomTomTraffic env boundsStr s =
     (if \<not> truthy_str_opt (tomtom_key env) then (Inl (ConfigError ''TomTom API key not configured''), s)
      else
        (let ps = split_on CHR '','' boundsStr;
             url = ''https://api.tomtom.com/traffic/services/4/flowSegmentAbsolute/relative/json/10/''
                   @ piece ps 0 @ '','' @ piece ps 1 @ ''/'' @ piece ps 2 @ '','' @ piece ps 3;
             s1 = s\<lparr>requests := requests s @ [url]\<rparr>
         in case http_flow env url of
              FlowRejected \<Rightarrow> (Inl RequestError, s1)
            | FlowNoBody \<Rightarrow> (Inl TypeErr, s1)
            | FlowBody fsd \<Rightarrow> (processTomTomTrafficData (clock env) fsd, s1)))"

text \<open>
  The defaults of \<open>storeTrafficData\<close>: \<^verbatim>\<open>x || d\<close> is \<open>d\<close> when \<open>x\<close> is falsy. The
  segments of the service have no \<^verbatim>\<open>location\<close>, \<^verbatim>\<open>vehicleCount\<close> or
  \<^verbatim>\<open>weatherCondition\<close>, so these three fields always take their defaults.
\<close>

definition num_or :: "real option \<Rightarrow> real \<Rightarrow> real" where
  "num_or x d = (case x of None \<Rightarrow> d | Some v \<Rightarrow> if v = 0 then d else v)"

definition str_or :: "string option \<Rightarrow> string \<Rightarrow> string" where
  "str_or x d = (case x of None \<Rightarrow> d | Some v \<Rightarrow> if v = [] then d else v)"

definition trafficRecord :: "environment \<Rightarrow> nat \<Rightarrow> flowSegment \<Rightarrow> trafficDataRow" where
  "trafficRecord env i segment =
     \<lparr>congestion_level = Some (str_or (Some (seg_trafficLevel segment)) ''medium''),
      current_speed = Some (Num (num_or (seg_currentSpeed segment) 0)),
      free_flow_speed = Some (Num (num_or (seg_freeFlowSpeed segment) 60)),
      tr_id = uuidv4 env i,
      tr_location = ''Unknown'',
      tr_coordinates = (case seg_coordinates segment of
                          None \<Rightarrow> (36.8219, - 1.2921)
                        | Some [] \<Rightarrow> (36.8219, - 1.2921)
                        | Some (p # _) \<Rightarrow> p),
      vehicle_count = \<lfloor>random env i * 100\<rfloor>,
      travel_time = num_or (seg_currentTravelTime segment) 0,
      free_flow_travel_time = num_or (seg_freeFlowTravelTime segment) 0,
      weather_condition = ''clear'',
      road_type = str_or (seg_roadCategory segment) ''local'',
      tr_confidence = num_or (seg_confidence segment) 0.8,
      data_source = ''tomtom'',
      recorded_at = clock env\<rparr>"

text \<open>
  \<open>storeTrafficData\<close> never raises: a value without a segment array is skipped, and a
  failing bulk insert is caught and logged.
\<close>

definition storeTrafficData :: "environment \<Rightarrow> trafficData \<Rightarrow> service \<Rightarrow> service" where
  "storeTrafficData env trafficData s =
     (case trafficData of
        EmptyArray \<Rightarrow> s
      | TrafficObject info \<Rightarrow>
          (let records = map (\<lambda>(i, segment). trafficRecord env i segment)
                           (zip [0..<length (td_segments info)] (td_segments info))
           in if store_ok env then s\<lparr>traffic_rows := traffic_rows s @ records\<rparr> else s))"

definition getLiveTrafficData ::
  "environment \<Rightarrow> string option \<Rightarrow> service \<Rightarrow> js_value \<times> service" where
  "getLiveTrafficData env boundsArg s =
     (let cacheKey = ''live-traffic-'' @ str_or boundsArg ''nairobi'' in
      case cache s cacheKey of
        Some cached \<Rightarrow> (cached, s)
      | None \<Rightarrow>
          (let nairobiBounds = str_or boundsArg getNairobiBounds in
           case fetchTomTomTraffic env nairobiBounds s of
             (Inl err, s1) \<Rightarrow> (Traffic (getFallbackTrafficData (clock env)), s1)
           | (Inr trafficData, s1) \<Rightarrow>
               (let s2 = s1\<lparr>cache := (cache s1)(cacheKey \<mapsto> Traffic trafficData)\<rparr>;
                    s3 = storeTrafficData env trafficData s2
                in (Traffic trafficData, s3))))"

definition mapIncidentType :: "string option \<Rightarrow> string" where
  "mapIncidentType t =
     (if t \<in> Some ` {''accident'', ''construction'', ''weather'', ''roadblock'', ''breakdown''}
      then the t else ''other'')"

definition mapIncidentSeverity :: "string option \<Rightarrow> incident_severity" where
  "mapIncidentSeverity sv =
     (if sv = Some ''minor'' then Low
      else if sv = Some ''moderate'' then Medium
      else if sv = Some ''major'' then High
      else if sv = Some ''severe'' then Severe
      else Medium)"

definition fetchTomTomIncidents ::
  "environment \<Rightarrow> service \<Rightarrow> (failure + tomtomIncident list) \<times> service" where
  "fetchTomTomIncidents env s =
     (if \<not> truthy_str_opt (tomtom_key env) then (Inl (ConfigError ''TomTom API key not configured''), s)
      else
        (let url = ''https://api.tomtom.com/traffic/services/5/incidentDetails/json'';
             s1 = s\<lparr>requests := requests s @ [url]\<rparr>
         in case http_incidents env of
              IncRejected \<Rightarrow> (Inl RequestError, s1)
            | IncNoBody \<Rightarrow> (Inl TypeErr, s1)
            | IncBody None \<Rightarrow> (Inr [], s1)
            | IncBody (Some found) \<Rightarrow> (Inr found, s1)))"

definition incidentRecord :: "environment \<Rightarrow> nat \<Rightarrow> tomtomIncident \<Rightarrow> trafficIncident" where
  "incidentRecord env i inc =
     \<lparr>inc_id = uuidv4 env i,
      inc_location = str_or (tt_description inc) ''Unknown location'',
      inc_coordinates = (case tt_coordinates inc of None \<Rightarrow> (36.8219, - 1.2921) | Some p \<Rightarrow> p),
      inc_type = mapIncidentType (tt_type inc),
      inc_severity = mapIncidentSeverity (tt_severity inc),
      description = str_or (tt_description inc) ''Traffic incident'',
      estimated_duration = num_or (tt_estimatedDuration inc) 60,
      delay_seconds = num_or (tt_delayInSeconds inc) 0,
      status = Active,
      verified = False,
      source = ''tomtom'',
      external_id = tt_id inc,
      started_at = (case tt_startTime inc of None \<Rightarrow> clock env | Some t \<Rightarrow> t)\<rparr>"

text \<open>\<open>storeIncidentData\<close> catches a failing bulk insert, as \<open>storeTrafficData\<close> does.\<close>

definition storeIncidentData :: "environment \<Rightarrow> tomtomIncident list \<Rightarrow> service \<Rightarrow> service" where
  "storeIncidentData env found s =
     (let records = map (\<lambda>(i, inc). incidentRecord env i inc) (zip [0..<length found] found)
      in if store_ok env then s\<lparr>incident_rows := incident_rows s @ records\<rparr> else s)"

text \<open>
  The last resort of \<open>getTrafficIncidents\<close>: the twenty latest active incidents, or
  nothing when this query fails too.
\<close>

definition fallbackIncidents :: "environment \<Rightarrow> service \<Rightarrow> js_value \<times> service" where
  "fallbackIncidents env s =
     (if fallback_ok env then
        (Incidents (map (\<lambda>r. FromDb (toJSON (clock env) r))
                      (findActive \<lparr>opt_where = None, opt_order = Some [(ColStartedAt, DESC)],
                                   opt_limit = Some 20\<rparr> (incident_rows s))), s)
      else (Incidents [], s))"

definition getTrafficIncidents :: "environment \<Rightarrow> service \<Rightarrow> js_value \<times> service" where
  "getTrafficIncidents env s =
     (let cacheKey = ''traffic-incidents'' in
      case cache s cacheKey of
        Some cached \<Rightarrow> (cached, s)
      | None \<Rightarrow>
          if \<not> find_ok env then fallbackIncidents env s
          else
            (let dbIncidents =
                   findActive \<lparr>opt_where = None,
                               opt_order = Some [(ColSeverity, DESC), (ColStartedAt, DESC)],
                               opt_limit = Some 50\<rparr> (incident_rows s)
             in if length dbIncidents > 0 then
                  (let found = Incidents (map (\<lambda>r. FromDb (toJSON (clock env) r)) dbIncidents)
                   in (found, s\<lparr>cache := (cache s)(cacheKey \<mapsto> found)\<rparr>))
                else
                  (case fetchTomTomIncidents env s of
                     (Inl err, s1) \<Rightarrow> fallbackIncidents env s1
                   | (Inr found, s1) \<Rightarrow>
                       (let s2 = storeIncidentData env found s1;
                            s3 = s2\<lparr>cache := (cache s2)(cacheKey \<mapsto> Incidents (map FromApi found))\<rparr>
                        in (Incidents (map FromApi found), s3)))))"

section \<open>Request validation: coordinates\<close>

text \<open>
  The three query parameters the middleware reads; \<open>None\<close> is a parameter that is not
  given. Values are strings, as the query parser delivers a single occurrence.
\<close>

record query =
  lat :: "string option"
  lng :: "string option"
  bounds :: "string option"

text \<open>What the middleware does: answer with status 400 and a message, or call \<^verbatim>\<open>next()\<close>.\<close>

datatype verdict = Status400 string | Next

text \<open>A string is truthy when it is not empty.\<close>

fun truthy_param :: "string option \<Rightarrow> bool" where
  "truthy_param None = False"
| "truthy_param (Some s) = (s \<noteq> [])"

definition isNaN :: "jsnum \<Rightarrow> bool" where
  "isNaN n = (n = NaN)"

definition validateCoordinates :: "query \<Rightarrow> verdict" where
  "validateCoordinates q =
     (if truthy_param (lat q)
         \<and> (js_lt (js_Number (the (lat q))) (Num (- 90)) \<or> js_gt (js_Number (the (lat q))) (Num 90))
      then Status400 ''Latitude must be between -90 and 90''
      else if truthy_param (lng q)
         \<and> (js_lt (js_Number (the (lng q))) (Num (- 180)) \<or> js_gt (js_Number (the (lng q))) (Num 180))
      then Status400 ''Longitude must be between -180 and 180''
      else if truthy_param (bounds q) then
        (let coords = map js_Number (split_on CHR '','' (the (bounds q))) in
         if length coords \<noteq> 4 \<or> list_ex isNaN coords
         then Status400 ''Bounds must be in format \"minLat,minLon,maxLat,maxLon\"''
         else
           (let minLat = coords ! 0; minLon = coords ! 1; maxLat = coords ! 2; maxLon = coords ! 3
            in if js_ge minLat maxLat \<or> js_ge minLon maxLon
               then Status400 ''Invalid bounds: min values must be less than max values''
               else Next))
      else Next)"

section \<open>Properties\<close>

subsection \<open>Congestion buckets\<close>

text \<open>
  Claim C1. For every pair of speeds, \<open>calculateTrafficLevel\<close> returns one of the four
  buckets, decided by the ratio \<open>currentSpeed / freeFlowSpeed\<close>: \<open>low\<close> exactly when the
  ratio is greater than 0.8, \<open>medium\<close> exactly when it is greater than 0.5 and at most
  0.8, \<open>high\<close> exactly when it is greater than 0.3 and at most 0.5, and \<open>severe\<close> in
  every other case (which includes a NaN ratio). Whenever the \<open>beforeCreate\<close> hook
  computes a level (none given, both speeds truthy), it stores the bucket that
  \<open>calculateTrafficLevel\<close> gives for the same two speeds.
\<close>

theorem calculateTrafficLevel_buckets:
  "calculateTrafficLevel c f \<in> {''low'', ''medium'', ''high'', ''severe''}
   \<and> (calculateTrafficLevel c f = ''low'' \<longleftrightarrow> js_gt (js_div c f) (Num 0.8))
   \<and> (calculateTrafficLevel c f = ''medium'' \<longleftrightarrow>
        js_gt (js_div c f) (Num 0.5) \<and> js_le (js_div c f) (Num 0.8))
   \<and> (calculateTrafficLevel c f = ''high'' \<longleftrightarrow>
        js_gt (js_div c f) (Num 0.3) \<and> js_le (js_div c f) (Num 0.5))
   \<and> (calculateTrafficLevel c f = ''severe'' \<longleftrightarrow> \<not> js_gt (js_div c f) (Num 0.3))
   \<and> beforeCreate t =
       (if \<not> truthy_str_opt (congestion_level t) \<and> truthy_num_opt (current_speed t)
           \<and> truthy_num_opt (free_flow_speed t)
        then t\<lparr>congestion_level :=
                 Some (calculateTrafficLevel (the (current_speed t)) (the (free_flow_speed t)))\<rparr>
        else t)"
proof -
  define r where "r = js_div c f"
  have A: "calculateTrafficLevel c f \<in> {''low'', ''medium'', ''high'', ''severe''}"
    by (simp add: calculateTrafficLevel_def Let_def)
  have B: "calculateTrafficLevel c f = ''low'' \<longleftrightarrow> js_gt r (Num 0.8)"
    by (simp add: calculateTrafficLevel_def Let_def r_def)
  have C: "calculateTrafficLevel c f = ''medium'' \<longleftrightarrow> js_gt r (Num 0.5) \<and> js_le r (Num 0.8)"
    unfolding calculateTrafficLevel_def Let_def r_def[symmetric]
    by (cases r) (auto simp: js_gt_def)
  have D: "calculateTrafficLevel c f = ''high'' \<longleftrightarrow> js_gt r (Num 0.3) \<and> js_le r (Num 0.5)"
    unfolding calculateTrafficLevel_def Let_def r_def[symmetric]
    by (cases r) (auto simp: js_gt_def)
  have E: "calculateTrafficLevel c f = ''severe'' \<longleftrightarrow> \<not> js_gt r (Num 0.3)"
    unfolding calculateTrafficLevel_def Let_def r_def[symmetric]
    by (cases r) (auto simp: js_gt_def)
  have F: "beforeCreate t =
       (if \<not> truthy_str_opt (congestion_level t) \<and> truthy_num_opt (current_speed t)
           \<and> truthy_num_opt (free_flow_speed t)
        then t\<lparr>congestion_level :=
                 Some (calculateTrafficLevel (the (current_speed t)) (the (free_flow_speed t)))\<rparr>
        else t)"
    by (simp add: beforeCreate_def calculateTrafficLevel_def Let_def)
  from A B C D E F show ?thesis unfolding r_def by blast
qed

theorem calculateTrafficLevel_buckets_witness:
  "calculateTrafficLevel (Num 45) (Num 60) = ''medium''
   \<and> calculateTrafficLevel (Num 50) (Num 0) = ''low''
   \<and> calculateTrafficLevel (Num 0) (Num 0) = ''severe''
   \<and> beforeCreate \<lparr>congestion_level = None, current_speed = Some (Num 20),
                    free_flow_speed = Some (Num 50)\<rparr>
       = \<lparr>congestion_level = Some ''high'', current_speed = Some (Num 20),
          free_flow_speed = Some (Num 50)\<rparr>
   \<and> beforeCreate \<lparr>congestion_level = None, current_speed = Some (Num 0),
                    free_flow_speed = Some (Num 50)\<rparr>
       = \<lparr>congestion_level = None, current_speed = Some (Num 0),
          free_flow_speed = Some (Num 50)\<rparr>"
proof -
  note T = calculateTrafficLevel_buckets
  have a: "calculateTrafficLevel (Num 45) (Num 60) = ''medium''"
    using T [of "Num 45" "Num 60"] by (simp add: js_gt_def)
  have b: "calculateTrafficLevel (Num 50) (Num 0) = ''low''"
    using T [of "Num 50" "Num 0"] by (simp add: js_gt_def)
  have c: "calculateTrafficLevel (Num 0) (Num 0) = ''severe''"
    using T [of "Num 0" "Num 0"] by (simp add: js_gt_def)
  have d: "calculateTrafficLevel (Num 20) (Num 50) = ''high''"
    using T [of "Num 20" "Num 50"] by (simp add: js_gt_def)
  have e: "beforeCreate \<lparr>congestion_level = None, current_speed = Some (Num 20),
                    free_flow_speed = Some (Num 50)\<rparr>
       = \<lparr>congestion_level = Some ''high'', current_speed = Some (Num 20),
          free_flow_speed = Some (Num 50)\<rparr>"
    using T [of "Num 20" "Num 50" "\<lparr>congestion_level = None, current_speed = Some (Num 20),
                    free_flow_speed = Some (Num 50)\<rparr>"] d by simp
  have f: "beforeCreate \<lparr>congestion_level = None, current_speed = Some (Num 0),
                    free_flow_speed = Some (Num 50)\<rparr>
       = \<lparr>congestion_level = None, current_speed = Some (Num 0),
          free_flow_speed = Some (Num 50)\<rparr>"
    using T [of "Num 0" "Num 0" "\<lparr>congestion_level = None, current_speed = Some (Num 0),
                    free_flow_speed = Some (Num 50)\<rparr>"] by simp
  from a b c e f show ?thesis by blast
qed

subsection \<open>The history summaries\<close>

lemma foldl_add_sum: "foldl (\<lambda>sum segment. sum + f segment) a xs = a + sum_list (map f xs)"
  for a :: real
  by (induction xs arbitrary: a) simp_all

lemma levelCounts_fold:
  "foldl (\<lambda>lc segment. countLevel lc (trafficLevel segment)) lc0 xs k =
     lc0 k + (if k \<in> set levelKeys then length (filter (\<lambda>s. trafficLevel s = k) xs) else 0)"
proof (induction xs arbitrary: lc0)
  case Nil
  then show ?case by simp
next
  case (Cons x xs)
  show ?case
    unfolding foldl_Cons Cons.IH
    by (auto simp: countLevel_def)
qed

text \<open>
  Claim C9. For a null, undefined or empty segment list \<open>calculateAverageSpeed\<close> returns
  0 and \<open>calculateOverallCongestion\<close> returns \<open>low\<close>. The quotients by the list length
  are therefore only taken for a positive length: the average is always a finite number
  (never NaN or an infinity), for a non-empty list it is the rounded mean and the
  congestion is decided by the ordinary quotients of the counts by the length; and
  \<open>calculateOverallCongestion\<close> always returns one of the four bucket names.
\<close>

theorem summaries_guard_empty:
  "(sgs = None \<or> sgs = Some [] \<longrightarrow>
      calculateAverageSpeed sgs = Num 0 \<and> calculateOverallCongestion sgs = ''low'')
   \<and> (\<exists>r. calculateAverageSpeed sgs = Num r)
   \<and> (\<forall>xs. sgs = Some xs \<and> xs \<noteq> [] \<longrightarrow>
         calculateAverageSpeed sgs =
           Num (of_int \<lfloor>sum_list (map currentSpeed xs) / real (length xs) + 1 / 2\<rfloor>)
         \<and> calculateOverallCongestion sgs =
           (if real (length (filter (\<lambda>s. trafficLevel s = ''severe'') xs)) / real (length xs) > 0.3
            then ''severe''
            else if real (length (filter (\<lambda>s. trafficLevel s = ''high'') xs)) / real (length xs) > 0.4
            then ''high''
            else if real (length (filter (\<lambda>s. trafficLevel s = ''medium'') xs)) / real (length xs) > 0.5
            then ''medium''
            else ''low''))
   \<and> calculateOverallCongestion sgs \<in> {''low'', ''medium'', ''high'', ''severe''}"
proof -
  have A: "sgs = None \<or> sgs = Some [] \<longrightarrow>
      calculateAverageSpeed sgs = Num 0 \<and> calculateOverallCongestion sgs = ''low''"
    by (auto simp: calculateAverageSpeed_def calculateOverallCongestion_def)
  have C1: "calculateAverageSpeed (Some xs) =
           Num (of_int \<lfloor>sum_list (map currentSpeed xs) / real (length xs) + 1 / 2\<rfloor>)"
    if "xs \<noteq> []" for xs
    using that by (simp add: calculateAverageSpeed_def Let_def foldl_add_sum)
  have C2: "calculateOverallCongestion (Some xs) =
           (if real (length (filter (\<lambda>s. trafficLevel s = ''severe'') xs)) / real (length xs) > 0.3
            then ''severe''
            else if real (length (filter (\<lambda>s. trafficLevel s = ''high'') xs)) / real (length xs) > 0.4
            then ''high''
            else if real (length (filter (\<lambda>s. trafficLevel s = ''medium'') xs)) / real (length xs) > 0.5
            then ''medium''
            else ''low'')"
    if "xs \<noteq> []" for xs
    using that
    by (simp add: calculateOverallCongestion_def Let_def levelCounts_fold levelKeys_def js_gt_def)
  have C: "\<forall>xs. sgs = Some xs \<and> xs \<noteq> [] \<longrightarrow>
         calculateAverageSpeed sgs =
           Num (of_int \<lfloor>sum_list (map currentSpeed xs) / real (length xs) + 1 / 2\<rfloor>)
         \<and> calculateOverallCongestion sgs =
           (if real (length (filter (\<lambda>s. trafficLevel s = ''severe'') xs)) / real (length xs) > 0.3
            then ''severe''
            else if real (length (filter (\<lambda>s. trafficLevel s = ''high'') xs)) / real (length xs) > 0.4
            then ''high''
            else if real (length (filter (\<lambda>s. trafficLevel s = ''medium'') xs)) / real (length xs) > 0.5
            then ''medium''
            else ''low'')"
    using C1 C2 by blast
  have B: "\<exists>r. calculateAverageSpeed sgs = Num r"
  proof (cases sgs)
    case None
    then show ?thesis by (simp add: calculateAverageSpeed_def)
  next
    case (Some xs)
    then show ?thesis using C1 [of xs] by (cases "xs = []") (auto simp: calculateAverageSpeed_def)
  qed
  have D: "calculateOverallCongestion sgs \<in> {''low'', ''medium'', ''high'', ''severe''}"
    by (simp add: calculateOverallCongestion_def Let_def split: option.split)
  from A B C D show ?thesis by blast
qed

theorem summaries_guard_empty_witness:
  "calculateAverageSpeed None = Num 0 \<and> calculateOverallCongestion None = ''low''
   \<and> calculateAverageSpeed (Some []) = Num 0 \<and> calculateOverallCongestion (Some []) = ''low''
   \<and> calculateAverageSpeed (Some [\<lparr>trafficLevel = ''high'', currentSpeed = 10\<rparr>,
                                   \<lparr>trafficLevel = ''low'', currentSpeed = 15\<rparr>]) = Num 13"
proof -
  have a: "calculateAverageSpeed None = Num 0 \<and> calculateOverallCongestion None = ''low''"
    using summaries_guard_empty [of None] by simp
  have b: "calculateAverageSpeed (Some []) = Num 0 \<and> calculateOverallCongestion (Some []) = ''low''"
    using summaries_guard_empty [of "Some []"] by simp
  have c: "calculateAverageSpeed (Some [\<lparr>trafficLevel = ''high'', currentSpeed = 10\<rparr>,
                                   \<lparr>trafficLevel = ''low'', currentSpeed = 15\<rparr>]) = Num 13"
    using summaries_guard_empty [of "Some [\<lparr>trafficLevel = ''high'', currentSpeed = 10\<rparr>,
                                   \<lparr>trafficLevel = ''low'', currentSpeed = 15\<rparr>]"]
    by simp
  from a b c show ?thesis by blast
qed

subsection \<open>The rule-based warnings\<close>

text \<open>
  Claim C5. For every non-empty segment list, \<open>analyzeTrafficFlow\<close> returns, in this
  order and with nothing else: the CRITICAL warning "Severe Traffic Congestion" exactly
  when more than 3 segments are \<open>severe\<close>; the HIGH warning "High Traffic Volume"
  exactly when more than 5 segments are \<open>high\<close>; the HIGH warning "Very Low Average
  Speed" exactly when the mean of the current speeds is below 15; the CRITICAL warning
  "Gridlock Risk Detected" exactly when some segment has a current speed below 5.
\<close>

theorem analyzeTrafficFlow_warnings:
  assumes "sgs \<noteq> []"
  shows "map (\<lambda>w. (level w, title w)) (analyzeTrafficFlow now sgs) =
       (if length (filter (\<lambda>s. trafficLevel s = ''severe'') sgs) > 3
        then [(CRITICAL, ''Severe Traffic Congestion'')] else [])
     @ (if length (filter (\<lambda>s. trafficLevel s = ''high'') sgs) > 5
        then [(HIGH, ''High Traffic Volume'')] else [])
     @ (if sum_list (map currentSpeed sgs) / real (length sgs) < 15
        then [(HIGH, ''Very Low Average Speed'')] else [])
     @ (if (\<exists>s \<in> set sgs. currentSpeed s < 5)
        then [(CRITICAL, ''Gridlock Risk Detected'')] else [])"
proof -
  have f: "foldl (\<lambda>a b. a + b) 0 (map currentSpeed sgs) = sum_list (map currentSpeed sgs)"
    using foldl_add_sum [of "\<lambda>x. x" 0 "map currentSpeed sgs"] by simp
  have avg: "js_lt (js_div (Num (foldl (\<lambda>a b. a + b) 0 (map currentSpeed sgs)))
                (Num (real (length (map currentSpeed sgs))))) (Num 15)
             \<longleftrightarrow> sum_list (map currentSpeed sgs) / real (length sgs) < 15"
    using assms by (simp add: f)
  have cnt: "length (filter (\<lambda>lv. lv = k) (map trafficLevel sgs))
             = length (filter (\<lambda>s. trafficLevel s = k) sgs)" for k
    by (simp add: filter_map comp_def)
  have grid: "length (filter (\<lambda>s. currentSpeed s < 5) sgs) > 0
              \<longleftrightarrow> (\<exists>s \<in> set sgs. currentSpeed s < 5)"
    by (simp add: filter_empty_conv)
  show ?thesis
    unfolding analyzeTrafficFlow_def Let_def avg cnt grid
    by simp
qed

theorem analyzeTrafficFlow_warnings_witness:
  "map (\<lambda>w. (level w, title w))
     (analyzeTrafficFlow 0 [\<lparr>trafficLevel = ''severe'', currentSpeed = 4\<rparr>,
                            \<lparr>trafficLevel = ''low'', currentSpeed = 20\<rparr>])
   = [(HIGH, ''Very Low Average Speed''), (CRITICAL, ''Gridlock Risk Detected'')]"
  using analyzeTrafficFlow_warnings [of "[\<lparr>trafficLevel = ''severe'', currentSpeed = 4\<rparr>,
                            \<lparr>trafficLevel = ''low'', currentSpeed = 20\<rparr>]" 0]
  by simp

subsection \<open>Processing warnings\<close>

lemma push_all_alerts:
  "alerts (foldl (\<lambda>st w. triggerWarning w (st\<lparr>alerts := alerts st @ [w]\<rparr>)) s ws) = alerts s @ ws"
  by (induction ws arbitrary: s) (simp_all add: triggerWarning_def)

lemma push_all_triggered:
  "triggered (foldl (\<lambda>st w. triggerWarning w (st\<lparr>alerts := alerts st @ [w]\<rparr>)) s ws)
   = triggered s @ ws"
  by (induction ws arbitrary: s) (simp_all add: triggerWarning_def)

lemma processWarnings_alerts:
  "alerts (processWarnings now ws s) =
     filter (\<lambda>alert. real_of_int (now - timestamp alert) / (1000 * 60) < 30)
       (alerts s @ filter (\<lambda>w. \<not> list_ex (\<lambda>existing. sameAlert existing w) (alerts s)) ws)"
  by (simp add: processWarnings_def Let_def cleanupOldWarnings_def push_all_alerts)

lemma processWarnings_triggered:
  "triggered (processWarnings now ws s) =
     triggered s @ filter (\<lambda>w. \<not> list_ex (\<lambda>existing. sameAlert existing w) (alerts s)) ws"
  by (simp add: processWarnings_def Let_def cleanupOldWarnings_def push_all_triggered)

text \<open>
  Claim C10, as stated, fails: the clean-up that ends \<open>processWarnings\<close> can drop the
  old alert that made a warning a duplicate, so a second run with the same list adds
  the warning. Here the alert is exactly 30 minutes old at the clock reading of both
  runs.
\<close>

theorem processWarnings_twice_counterexample:
  "alerts (processWarnings 1800000
             [\<lparr>level = HIGH, title = ''High Traffic Volume'', message = [],
               location = ''City-wide'', timestamp = 1800000, wtype = ''congestion'',
               severity = None, predictionTime = None, factors = None, confidence = None\<rparr>]
             \<lparr>alerts = [\<lparr>level = HIGH, title = ''High Traffic Volume'', message = [],
                         location = ''City-wide'', timestamp = 0, wtype = ''congestion'',
                         severity = None, predictionTime = None, factors = None,
                         confidence = None\<rparr>],
               triggered = []\<rparr>) = []
   \<and> alerts (processWarnings 1800000
             [\<lparr>level = HIGH, title = ''High Traffic Volume'', message = [],
               location = ''City-wide'', timestamp = 1800000, wtype = ''congestion'',
               severity = None, predictionTime = None, factors = None, confidence = None\<rparr>]
             (processWarnings 1800000
               [\<lparr>level = HIGH, title = ''High Traffic Volume'', message = [],
                 location = ''City-wide'', timestamp = 1800000, wtype = ''congestion'',
                 severity = None, predictionTime = None, factors = None, confidence = None\<rparr>]
               \<lparr>alerts = [\<lparr>level = HIGH, title = ''High Traffic Volume'', message = [],
                           location = ''City-wide'', timestamp = 0, wtype = ''congestion'',
                           severity = None, predictionTime = None, factors = None,
                           confidence = None\<rparr>],
                 triggered = []\<rparr>))
     = [\<lparr>level = HIGH, title = ''High Traffic Volume'', message = [],
         location = ''City-wide'', timestamp = 1800000, wtype = ''congestion'',
         severity = None, predictionTime = None, factors = None, confidence = None\<rparr>]"
  by (simp add: processWarnings_def Let_def cleanupOldWarnings_def triggerWarning_def sameAlert_def)

text \<open>
  Claim C10, amended. \<open>processWarnings\<close> appends exactly the warnings of the list for
  which no alert present at the call has the same title and location, and then keeps
  the alerts younger than 30 minutes; so every alert after the call was there before
  or is a listed warning with no such earlier alert. A second run with the same list
  leaves the alerts as the first run left them provided no earlier alert and no listed
  warning has reached the age of 30 minutes at the second run's clock reading.
\<close>

theorem processWarnings_dedup_idempotent:
  "alerts (processWarnings now1 ws s) =
     filter (\<lambda>alert. real_of_int (now1 - timestamp alert) / (1000 * 60) < 30)
       (alerts s @ filter (\<lambda>w. \<not> (\<exists>existing \<in> set (alerts s).
                                    title existing = title w \<and> location existing = location w)) ws)
   \<and> (\<forall>a \<in> set (alerts (processWarnings now1 ws s)).
         a \<in> set (alerts s) \<or>
         (a \<in> set ws \<and> \<not> (\<exists>existing \<in> set (alerts s).
                             title existing = title a \<and> location existing = location a)))
   \<and> (now1 \<le> now2 \<and>
       (\<forall>a \<in> set (alerts s) \<union> set ws. real_of_int (now2 - timestamp a) / (1000 * 60) < 30)
       \<longrightarrow> alerts (processWarnings now2 ws (processWarnings now1 ws s))
           = alerts (processWarnings now1 ws s))"
proof -
  let ?fresh = "\<lambda>now alert. real_of_int (now - timestamp alert) / (1000 * 60) < 30"
  let ?new = "\<lambda>as. filter (\<lambda>w. \<not> list_ex (\<lambda>existing. sameAlert existing w) as) ws"
  have ex: "list_ex (\<lambda>existing. sameAlert existing w) as
            \<longleftrightarrow> (\<exists>existing \<in> set as. title existing = title w \<and> location existing = location w)"
    for w as
    by (simp add: list_ex_iff sameAlert_def)
  have A: "alerts (processWarnings now1 ws s) =
     filter (?fresh now1)
       (alerts s @ filter (\<lambda>w. \<not> (\<exists>existing \<in> set (alerts s).
                                    title existing = title w \<and> location existing = location w)) ws)"
    by (simp add: processWarnings_alerts ex)
  have B: "\<forall>a \<in> set (alerts (processWarnings now1 ws s)).
         a \<in> set (alerts s) \<or>
         (a \<in> set ws \<and> \<not> (\<exists>existing \<in> set (alerts s).
                             title existing = title a \<and> location existing = location a))"
    unfolding A by auto
  have C: "alerts (processWarnings now2 ws (processWarnings now1 ws s))
           = alerts (processWarnings now1 ws s)"
    if le: "now1 \<le> now2"
      and fr: "\<forall>a \<in> set (alerts s) \<union> set ws. ?fresh now2 a"
  proof -
    have fr1: "?fresh now1 a" if "a \<in> set (alerts s) \<union> set ws" for a
    proof -
      have "real_of_int (now1 - timestamp a) \<le> real_of_int (now2 - timestamp a)"
        using le by simp
      then have "real_of_int (now1 - timestamp a) / (1000 * 60)
                 \<le> real_of_int (now2 - timestamp a) / (1000 * 60)"
        by (simp add: divide_right_mono)
      moreover from fr that have "real_of_int (now2 - timestamp a) / (1000 * 60) < 30"
        by blast
      ultimately show ?thesis by linarith
    qed
    have keep1: "filter (?fresh now1) (alerts s @ ?new (alerts s)) = alerts s @ ?new (alerts s)"
      by (rule filter_True) (use fr1 in auto)
    have a1: "alerts (processWarnings now1 ws s) = alerts s @ ?new (alerts s)"
      unfolding processWarnings_alerts keep1 ..
    have none: "?new (alerts s @ ?new (alerts s)) = []"
    proof -
      have "list_ex (\<lambda>existing. sameAlert existing w) (alerts s @ ?new (alerts s))"
        if "w \<in> set ws" for w
      proof (cases "list_ex (\<lambda>existing. sameAlert existing w) (alerts s)")
        case True
        then show ?thesis by (auto simp: list_ex_iff)
      next
        case False
        with that have "w \<in> set (?new (alerts s))" by simp
        moreover have "sameAlert w w" by (simp add: sameAlert_def)
        ultimately have "\<exists>e \<in> set (alerts s @ ?new (alerts s)). sameAlert e w"
          by (intro bexI [of _ w]) simp_all
        then show ?thesis by (simp only: list_ex_iff)
      qed
      then show ?thesis by (simp add: filter_empty_conv)
    qed
    have keep2: "filter (?fresh now2) (alerts s @ ?new (alerts s)) = alerts s @ ?new (alerts s)"
      by (rule filter_True) (use fr in auto)
    show ?thesis
      unfolding processWarnings_alerts [of now2] a1 none
      using keep2 by simp
  qed
  from A B C show ?thesis by blast
qed

theorem processWarnings_dedup_idempotent_witness:
  "alerts (processWarnings 60000
             [\<lparr>level = HIGH, title = ''High Traffic Volume'', message = [],
               location = ''City-wide'', timestamp = 60000, wtype = ''congestion'',
               severity = None, predictionTime = None, factors = None, confidence = None\<rparr>]
             (processWarnings 0
               [\<lparr>level = HIGH, title = ''High Traffic Volume'', message = [],
                 location = ''City-wide'', timestamp = 60000, wtype = ''congestion'',
                 severity = None, predictionTime = None, factors = None, confidence = None\<rparr>]
               \<lparr>alerts = [\<lparr>level = CRITICAL, title = ''Gridlock Risk Detected'', message = [],
                           location = ''Critical intersections'', timestamp = 0,
                           wtype = ''gridlock'', severity = None, predictionTime = None,
                           factors = None, confidence = None\<rparr>],
                 triggered = []\<rparr>))
   = [\<lparr>level = CRITICAL, title = ''Gridlock Risk Detected'', message = [],
       location = ''Critical intersections'', timestamp = 0,
       wtype = ''gridlock'', severity = None, predictionTime = None,
       factors = None, confidence = None\<rparr>,
      \<lparr>level = HIGH, title = ''High Traffic Volume'', message = [],
       location = ''City-wide'', timestamp = 60000, wtype = ''congestion'',
       severity = None, predictionTime = None, factors = None, confidence = None\<rparr>]"
  using processWarnings_dedup_idempotent
    [of 0 "[\<lparr>level = HIGH, title = ''High Traffic Volume'', message = [],
               location = ''City-wide'', timestamp = 60000, wtype = ''congestion'',
               severity = None, predictionTime = None, factors = None, confidence = None\<rparr>]"
        "\<lparr>alerts = [\<lparr>level = CRITICAL, title = ''Gridlock Risk Detected'', message = [],
                           location = ''Critical intersections'', timestamp = 0,
                           wtype = ''gridlock'', severity = None, predictionTime = None,
                           factors = None, confidence = None\<rparr>],
                 triggered = []\<rparr>" 60000]
  by simp

subsection \<open>The in-memory history and the predictions\<close>

text \<open>
  Claim C6. A call of \<open>storeHistoricalData\<close> with a traffic object and an incident list
  returns, and afterwards every entry of \<open>historicalData\<close> has a timestamp strictly
  later than seven days before the clock reading taken for the limit.
\<close>

theorem storeHistoricalData_week_bound:
  "\<exists>s'. storeHistoricalData cal now now' (Some td) (Some incs) s = Inr s'
        \<and> (\<forall>d \<in> set (historicalData s'). dp_timestamp d > now' - 7 * 24 * 60 * 60 * 1000)
        \<and> predictions s' = predictions s"
  by (simp add: storeHistoricalData_def Let_def)

theorem storeHistoricalData_week_bound_witness:
  "storeHistoricalData \<lparr>getHours = (\<lambda>t. 8), getDay = (\<lambda>t. 1)\<rparr> 700000000 700000000
       (Some \<lparr>segments = None\<rparr>) (Some [()])
       \<lparr>historicalData =
          [\<lparr>dp_timestamp = 95200000, trafficSegments = [], incidentCount = 0,
            incidents = [], averageSpeed = Num 0, congestionLevel = ''low'',
            hour = 8, dayOfWeek = 1, weather = ''clear''\<rparr>,
           \<lparr>dp_timestamp = 95200001, trafficSegments = [], incidentCount = 0,
            incidents = [], averageSpeed = Num 0, congestionLevel = ''low'',
            hour = 8, dayOfWeek = 1, weather = ''clear''\<rparr>],
         predictions = []\<rparr>
   = Inr \<lparr>historicalData =
          [\<lparr>dp_timestamp = 95200001, trafficSegments = [], incidentCount = 0,
            incidents = [], averageSpeed = Num 0, congestionLevel = ''low'',
            hour = 8, dayOfWeek = 1, weather = ''clear''\<rparr>,
           \<lparr>dp_timestamp = 700000000, trafficSegments = [], incidentCount = 1,
            incidents = [()], averageSpeed = Num 0, congestionLevel = ''low'',
            hour = 8, dayOfWeek = 1, weather = ''clear''\<rparr>],
         predictions = []\<rparr>"
  using storeHistoricalData_week_bound
    [of "\<lparr>getHours = (\<lambda>t. 8), getDay = (\<lambda>t. 1)\<rparr>" 700000000 700000000
        "\<lparr>segments = None\<rparr>" "[()]"
        "\<lparr>historicalData =
          [\<lparr>dp_timestamp = 95200000, trafficSegments = [], incidentCount = 0,
            incidents = [], averageSpeed = Num 0, congestionLevel = ''low'',
            hour = 8, dayOfWeek = 1, weather = ''clear''\<rparr>,
           \<lparr>dp_timestamp = 95200001, trafficSegments = [], incidentCount = 0,
            incidents = [], averageSpeed = Num 0, congestionLevel = ''low'',
            hour = 8, dayOfWeek = 1, weather = ''clear''\<rparr>],
         predictions = []\<rparr>"]
  by (simp add: storeHistoricalData_def Let_def calculateAverageSpeed_def
      calculateOverallCongestion_def)

lemma generatePredictions_length: "length (generatePredictions cal now s cc) = 4"
  by (simp add: generatePredictions_def)

lemma processPredictiveWarnings_predictive:
  "predictive (processPredictiveWarnings now ps win) = predictive win"
proof -
  have "predictive (foldl (\<lambda>w p. case window_warningSystem w of
                         None \<Rightarrow> w
                       | Some ws \<Rightarrow> w\<lparr>window_warningSystem := Some (f p ws)\<rparr>) w0 qs)
        = predictive w0" for f qs and w0 :: "'a window"
    by (induction qs arbitrary: w0) (simp_all split: option.split)
  then show ?thesis by (simp add: processPredictiveWarnings_def Let_def)
qed

lemma updatePredictions_enough_data:
  "10 \<le> length (historicalData (predictive win))
   \<Longrightarrow> length (predictions (predictive (updatePredictions cal now win))) = 4"
  by (simp add: updatePredictions_def Let_def processPredictiveWarnings_predictive
      generatePredictions_length)

text \<open>
  Claim C8. With fewer than ten entries in \<open>historicalData\<close>, \<open>updatePredictions\<close>
  returns at once: the predictions, the history, the alerts of the warning system and
  the log of triggered warnings are all as before.
\<close>

theorem updatePredictions_too_few:
  "length (historicalData (predictive win)) < 10 \<Longrightarrow> updatePredictions cal now win = win"
  by (simp add: updatePredictions_def)

theorem updatePredictions_too_few_witness:
  "updatePredictions \<lparr>getHours = (\<lambda>t. 8), getDay = (\<lambda>t. 1)\<rparr> 700000000
     \<lparr>predictive = \<lparr>historicalData =
                      [\<lparr>dp_timestamp = 95200001, trafficSegments = [], incidentCount = 0,
                        incidents = [()], averageSpeed = Num 0, congestionLevel = ''low'',
                        hour = 8, dayOfWeek = 1, weather = ''clear''\<rparr>],
                    predictions = []\<rparr>,
      window_warningSystem = Some \<lparr>alerts = [], triggered = []\<rparr>\<rparr>
   = \<lparr>predictive = \<lparr>historicalData =
                      [\<lparr>dp_timestamp = 95200001, trafficSegments = [], incidentCount = 0,
                        incidents = [()], averageSpeed = Num 0, congestionLevel = ''low'',
                        hour = 8, dayOfWeek = 1, weather = ''clear''\<rparr>],
                    predictions = []\<rparr>,
      window_warningSystem = Some \<lparr>alerts = [], triggered = []\<rparr>\<rparr>"
  by (rule updatePredictions_too_few) simp

subsection \<open>Conversions and splitting at work\<close>

lemma js_Number_examples:
  "js_Number ''1'' = Num 1" "js_Number '''' = Num 0" "js_Number ''3'' = Num 3"
  "js_Number ''4'' = Num 4" "js_Number ''-1.4449'' = Num (- 1.4449)"
  "js_Number ''36.6786'' = Num 36.6786" "js_Number ''abc'' = NaN"
  "js_Number '' 12 '' = Num 12" "js_Number ''1e3'' = Num 1000" "js_Number ''0x10'' = Num 16"
  "js_Number ''-Infinity'' = NegInf" "js_Number ''91'' = Num 91" "js_Number ''.'' = NaN"
  "js_Number ''5.'' = Num 5" "js_Number ''-'' = NaN" "js_Number ''1,2'' = NaN"
  by (simp_all add: js_Number_def trim_def is_ws_def parse_nondecimal_def
      parse_unsigned_decimal_def parse_exponent_def is_digit_def digit_in_def all_digits_def)

lemma split_on_examples:
  "split_on CHR '','' ''1,,3,4'' = [''1'', '''', ''3'', ''4'']"
  "split_on CHR '','' ''12'' = [''12'']"
  "split_on CHR '','' ''1,2,'' = [''1'', ''2'', '''']"
  by simp_all

subsection \<open>Active incidents\<close>

lemma findAll_subset: "set (findAll opts table) \<subseteq> set table"
proof -
  have "set (take n xs) \<subseteq> set xs" for n and xs :: "trafficIncident list"
    by (rule set_take_subset)
  then show ?thesis
    unfolding findAll_def Let_def
    by (auto split: option.splits dest!: in_set_takeD)
qed

lemma findAll_where:
  "opt_where opts = Some conds \<Longrightarrow> r \<in> set (findAll opts table) \<Longrightarrow> list_all (\<lambda>c. holds c r) conds"
  unfolding findAll_def Let_def
  by (auto split: option.splits dest!: in_set_takeD)

lemma findAll_ordered:
  "opt_order opts = Some ord \<Longrightarrow> sorted (map (order_key ord) (findAll opts table))"
proof -
  assume o: "opt_order opts = Some ord"
  have s: "sorted (map (order_key ord) (sort_key (order_key ord) xs))" for xs
    by (rule sorted_sort_key)
  have t: "sorted (map (order_key ord) (take n (sort_key (order_key ord) xs)))" for n xs
    using s [of xs] by (simp add: take_map [symmetric] sorted_wrt_take)
  show ?thesis
    unfolding findAll_def Let_def using o s t by (simp split: option.splits)
qed

lemma findAll_limit: "opt_limit opts = Some n \<Longrightarrow> length (findAll opts table) \<le> n"
  unfolding findAll_def Let_def by (simp split: option.splits)

lemma severity_then_start_key:
  "order_key [(ColSeverity, DESC), (ColStartedAt, DESC)] a
     \<le> order_key [(ColSeverity, DESC), (ColStartedAt, DESC)] b
   \<longleftrightarrow> severity_rank (inc_severity a) > severity_rank (inc_severity b)
       \<or> (inc_severity a = inc_severity b \<and> started_at a \<ge> started_at b)"
proof -
  have inj: "severity_rank x = severity_rank y \<longleftrightarrow> x = y" for x y
    by (cases x; cases y) simp_all
  show ?thesis
    by (auto simp: order_key_def inj)
qed

text \<open>
  Claim C4, as stated, fails for \<open>findActive\<close> itself: the caller's options replace the
  defaults key by key. The fallback query of \<open>getTrafficIncidents\<close> (limit 20, ordered
  by \<open>started_at\<close> only) returns a low incident before an earlier severe one, and a
  caller that gives a \<open>where\<close> of its own gets incidents that are not active.
\<close>

theorem findActive_options_counterexample:
  "map inc_severity
     (findActive \<lparr>opt_where = None, opt_order = Some [(ColStartedAt, DESC)], opt_limit = Some 20\<rparr>
        [\<lparr>inc_id = ''a'', inc_location = ''Uhuru Highway'', inc_coordinates = (36.82, - 1.29),
          inc_type = ''accident'', inc_severity = Low, description = ''Minor collision'',
          estimated_duration = 30, delay_seconds = 0, status = Active, verified = False,
          source = ''user_report'', external_id = None, started_at = 200\<rparr>,
         \<lparr>inc_id = ''b'', inc_location = ''Mombasa Road'', inc_coordinates = (36.85, - 1.32),
          inc_type = ''accident'', inc_severity = Severe, description = ''Multi-vehicle crash'',
          estimated_duration = 240, delay_seconds = 0, status = Active, verified = False,
          source = ''user_report'', external_id = None, started_at = 100\<rparr>])
   = [Low, Severe]
   \<and> map status
     (findActive \<lparr>opt_where = Some [SeverityIs Severe], opt_order = None, opt_limit = None\<rparr>
        [\<lparr>inc_id = ''b'', inc_location = ''Mombasa Road'', inc_coordinates = (36.85, - 1.32),
          inc_type = ''accident'', inc_severity = Severe, description = ''Multi-vehicle crash'',
          estimated_duration = 240, delay_seconds = 0, status = Resolved, verified = False,
          source = ''user_report'', external_id = None, started_at = 100\<rparr>])
   = [Resolved]"
  by (simp add: findActive_def findAll_def spread_def Let_def order_key_def)

text \<open>
  Claim C4, amended. Every incident returned by \<open>findActive\<close> is active whenever the
  caller's options carry no \<open>where\<close> of their own, and the result is ordered by severity
  descending, then \<open>started_at\<close> descending, whenever they carry no \<open>order\<close> of their own.
  On a cache miss, when the first query succeeds and the table holds an active
  incident, \<open>getTrafficIncidents\<close> serves rows of the table: at most 50, all active (none
  resolved or monitoring), in that order.
\<close>

theorem findActive_active_ordered:
  "(opt_where opts = None \<longrightarrow> (\<forall>r \<in> set (findActive opts table). status r = Active))
   \<and> (opt_order opts = None \<longrightarrow>
        sorted_wrt (\<lambda>a b. severity_rank (inc_severity a) > severity_rank (inc_severity b)
                          \<or> (inc_severity a = inc_severity b \<and> started_at a \<ge> started_at b))
          (findActive opts table))
   \<and> (cache s ''traffic-incidents'' = None \<and> find_ok env
        \<and> (\<exists>r \<in> set (incident_rows s). status r = Active) \<longrightarrow>
        (\<exists>found. fst (getTrafficIncidents env s)
                   = Incidents (map (\<lambda>r. FromDb (toJSON (clock env) r)) found)
           \<and> found \<noteq> [] \<and> length found \<le> 50
           \<and> set found \<subseteq> set (incident_rows s)
           \<and> (\<forall>r \<in> set found. status r = Active)
           \<and> sorted_wrt (\<lambda>a b. severity_rank (inc_severity a) > severity_rank (inc_severity b)
                          \<or> (inc_severity a = inc_severity b \<and> started_at a \<ge> started_at b))
               found))"
proof -
  let ?dflt = "\<lparr>opt_where = Some [StatusIs Active],
             opt_order = Some [(ColSeverity, DESC), (ColStartedAt, DESC)],
             opt_limit = None\<rparr>"
  let ?rel = "\<lambda>a b. severity_rank (inc_severity a) > severity_rank (inc_severity b)
                          \<or> (inc_severity a = inc_severity b \<and> started_at a \<ge> started_at b)"
  have act: "\<forall>r \<in> set (findActive o1 t1). status r = Active" if "opt_where o1 = None" for o1 t1
  proof
    fix r assume "r \<in> set (findActive o1 t1)"
    then have "r \<in> set (findAll (spread ?dflt o1) t1)" by (simp add: findActive_def)
    moreover have "opt_where (spread ?dflt o1) = Some [StatusIs Active]"
      using that by (simp add: spread_def)
    ultimately have "list_all (\<lambda>c. holds c r) [StatusIs Active]" by (rule findAll_where [rotated])
    then show "status r = Active" by simp
  qed
  have srt: "sorted_wrt ?rel (findActive o1 t1)"
    if "opt_order (spread ?dflt o1) = Some [(ColSeverity, DESC), (ColStartedAt, DESC)]" for o1 t1
  proof -
    have "sorted (map (order_key [(ColSeverity, DESC), (ColStartedAt, DESC)]) (findActive o1 t1))"
      unfolding findActive_def Let_def using that by (rule findAll_ordered)
    then show ?thesis
      by (simp add: sorted_map severity_then_start_key)
  qed
  have A: "opt_where opts = None \<longrightarrow> (\<forall>r \<in> set (findActive opts table). status r = Active)"
    using act by blast
  have B: "opt_order opts = None \<longrightarrow> sorted_wrt ?rel (findActive opts table)"
    by (auto intro!: srt simp: spread_def)
  have C: "\<exists>found. fst (getTrafficIncidents env s)
                   = Incidents (map (\<lambda>r. FromDb (toJSON (clock env) r)) found)
           \<and> found \<noteq> [] \<and> length found \<le> 50
           \<and> set found \<subseteq> set (incident_rows s)
           \<and> (\<forall>r \<in> set found. status r = Active)
           \<and> sorted_wrt ?rel found"
    if miss: "cache s ''traffic-incidents'' = None" and ok: "find_ok env"
      and ex: "\<exists>r \<in> set (incident_rows s). status r = Active"
  proof -
    let ?o = "\<lparr>opt_where = None,
               opt_order = Some [(ColSeverity, DESC), (ColStartedAt, DESC)],
               opt_limit = Some 50\<rparr>"
    let ?found = "findActive ?o (incident_rows s)"
    have eq: "?found = take 50 (sort_key (order_key [(ColSeverity, DESC), (ColStartedAt, DESC)])
                                  (filter (\<lambda>r. status r = Active) (incident_rows s)))"
      by (simp add: findActive_def findAll_def spread_def Let_def)
    from ex have "filter (\<lambda>r. status r = Active) (incident_rows s) \<noteq> []"
      by (simp add: filter_empty_conv)
    then have "sort_key (order_key [(ColSeverity, DESC), (ColStartedAt, DESC)])
                 (filter (\<lambda>r. status r = Active) (incident_rows s)) \<noteq> []"
      by (metis length_0_conv length_sort)
    with eq have ne: "?found \<noteq> []" by simp
    have r: "fst (getTrafficIncidents env s)
             = Incidents (map (\<lambda>r. FromDb (toJSON (clock env) r)) ?found)"
      using miss ok ne by (simp add: getTrafficIncidents_def Let_def)
    have l: "length ?found \<le> 50"
      unfolding findActive_def Let_def by (rule findAll_limit) (simp add: spread_def)
    have sub: "set ?found \<subseteq> set (incident_rows s)"
      unfolding findActive_def Let_def by (rule findAll_subset)
    have a: "\<forall>r \<in> set ?found. status r = Active" by (rule act) simp
    have o: "sorted_wrt ?rel ?found" by (rule srt) (simp add: spread_def)
    from r ne l sub a o show ?thesis by blast
  qed
  from A B C show ?thesis by blast
qed

theorem findActive_active_ordered_witness:
  "\<exists>found. fst (getTrafficIncidents
                   \<lparr>tomtom_key = None, http_flow = (\<lambda>u. FlowRejected), http_incidents = IncRejected,
                    find_ok = True, store_ok = True, fallback_ok = True, clock = 60000,
                    uuidv4 = (\<lambda>i. ''u''), random = (\<lambda>i. 0)\<rparr>
                   \<lparr>cache = Map.empty, traffic_rows = [],
                    incident_rows =
                      [\<lparr>inc_id = ''a'', inc_location = ''Uhuru Highway'', inc_coordinates = (36.82, - 1.29),
                        inc_type = ''accident'', inc_severity = Low, description = ''Minor collision'',
                        estimated_duration = 30, delay_seconds = 0, status = Active, verified = False,
                        source = ''user_report'', external_id = None, started_at = 200\<rparr>,
                       \<lparr>inc_id = ''c'', inc_location = ''Thika Road'', inc_coordinates = (36.9, - 1.2),
                        inc_type = ''roadblock'', inc_severity = High, description = ''Road closed'',
                        estimated_duration = 120, delay_seconds = 0, status = Resolved, verified = True,
                        source = ''user_report'', external_id = None, started_at = 150\<rparr>,
                       \<lparr>inc_id = ''b'', inc_location = ''Mombasa Road'', inc_coordinates = (36.85, - 1.32),
                        inc_type = ''accident'', inc_severity = Severe, description = ''Multi-vehicle crash'',
                        estimated_duration = 240, delay_seconds = 0, status = Active, verified = False,
                        source = ''user_report'', external_id = None, started_at = 100\<rparr>],
                    requests = []\<rparr>)
             = Incidents (map (\<lambda>r. FromDb (toJSON 60000 r)) found)
         \<and> map inc_id found = [''b'', ''a'']
         \<and> list_all (\<lambda>r. status r = Active) found"
  (is "\<exists>found. fst (getTrafficIncidents ?env ?s) = _ \<and> _ \<and> _")
proof -
  have h: "cache ?s ''traffic-incidents'' = None \<and> find_ok ?env
           \<and> (\<exists>r \<in> set (incident_rows ?s). status r = Active)"
    by simp
  from findActive_active_ordered [of "\<lparr>opt_where = None, opt_order = None, opt_limit = None\<rparr>" "[]" ?s ?env] h
  obtain found where
    f: "fst (getTrafficIncidents ?env ?s)
          = Incidents (map (\<lambda>r. FromDb (toJSON (clock ?env) r)) found)"
    and a: "\<forall>r \<in> set found. status r = Active"
    by blast
  have v: "fst (getTrafficIncidents ?env ?s)
           = Incidents (map (\<lambda>r. FromDb (toJSON 60000 r))
               [\<lparr>inc_id = ''b'', inc_location = ''Mombasa Road'', inc_coordinates = (36.85, - 1.32),
                 inc_type = ''accident'', inc_severity = Severe, description = ''Multi-vehicle crash'',
                 estimated_duration = 240, delay_seconds = 0, status = Active, verified = False,
                 source = ''user_report'', external_id = None, started_at = 100\<rparr>,
                \<lparr>inc_id = ''a'', inc_location = ''Uhuru Highway'', inc_coordinates = (36.82, - 1.29),
                 inc_type = ''accident'', inc_severity = Low, description = ''Minor collision'',
                 estimated_duration = 30, delay_seconds = 0, status = Active, verified = False,
                 source = ''user_report'', external_id = None, started_at = 200\<rparr>])"
    by (simp add: getTrafficIncidents_def findActive_def findAll_def spread_def Let_def order_key_def)
  have inj: "inj (\<lambda>r. FromDb (toJSON 60000 r))"
    by (rule injI) (simp add: toJSON_def)
  from f v have "map (\<lambda>r. FromDb (toJSON 60000 r)) found
        = map (\<lambda>r. FromDb (toJSON 60000 r))
               [\<lparr>inc_id = ''b'', inc_location = ''Mombasa Road'', inc_coordinates = (36.85, - 1.32),
                 inc_type = ''accident'', inc_severity = Severe, description = ''Multi-vehicle crash'',
                 estimated_duration = 240, delay_seconds = 0, status = Active, verified = False,
                 source = ''user_report'', external_id = None, started_at = 100\<rparr>,
                \<lparr>inc_id = ''a'', inc_location = ''Uhuru Highway'', inc_coordinates = (36.82, - 1.29),
                 inc_type = ''accident'', inc_severity = Low, description = ''Minor collision'',
                 estimated_duration = 30, delay_seconds = 0, status = Active, verified = False,
                 source = ''user_report'', external_id = None, started_at = 200\<rparr>]"
    by simp
  with inj have fv: "found =
               [\<lparr>inc_id = ''b'', inc_location = ''Mombasa Road'', inc_coordinates = (36.85, - 1.32),
                 inc_type = ''accident'', inc_severity = Severe, description = ''Multi-vehicle crash'',
                 estimated_duration = 240, delay_seconds = 0, status = Active, verified = False,
                 source = ''user_report'', external_id = None, started_at = 100\<rparr>,
                \<lparr>inc_id = ''a'', inc_location = ''Uhuru Highway'', inc_coordinates = (36.82, - 1.29),
                 inc_type = ''accident'', inc_severity = Low, description = ''Minor collision'',
                 estimated_duration = 30, delay_seconds = 0, status = Active, verified = False,
                 source = ''user_report'', external_id = None, started_at = 200\<rparr>]"
    by (simp only: inj_map_eq_map)
  from f a fv show ?thesis
    by (intro exI [of _ found]) (simp add: list_all_iff)
qed

subsection \<open>Coordinate validation\<close>

lemma validateCoordinates_cases:
  "validateCoordinates q = Next \<longleftrightarrow>
     \<not> (truthy_param (lat q)
        \<and> (js_lt (js_Number (the (lat q))) (Num (- 90)) \<or> js_gt (js_Number (the (lat q))) (Num 90)))
   \<and> \<not> (truthy_param (lng q)
        \<and> (js_lt (js_Number (the (lng q))) (Num (- 180)) \<or> js_gt (js_Number (the (lng q))) (Num 180)))
   \<and> (truthy_param (bounds q) \<longrightarrow>
        (let coords = map js_Number (split_on CHR '','' (the (bounds q)))
         in length coords = 4 \<and> NaN \<notin> set coords
            \<and> js_lt (coords ! 0) (coords ! 2) \<and> js_lt (coords ! 1) (coords ! 3)))"
proof -
  have ge: "js_ge a b \<longleftrightarrow> \<not> js_lt a b" if "a \<noteq> NaN" "b \<noteq> NaN" for a b
    using that by (cases a; cases b) (auto simp: js_ge_def)
  have nan: "list_ex isNaN cs \<longleftrightarrow> NaN \<in> set cs" for cs
    by (auto simp: list_ex_iff isNaN_def)
  have four: "cs ! 0 \<in> set cs \<and> cs ! 1 \<in> set cs \<and> cs ! 2 \<in> set cs \<and> cs ! 3 \<in> set cs"
    if "length cs = 4" for cs :: "jsnum list"
    using that by simp
  show ?thesis
    unfolding validateCoordinates_def Let_def nan
    using four [of "map js_Number (split_on CHR '','' (the (bounds q)))"]
    by (auto simp: ge simp del: set_map split: if_splits) (metis ge)+
qed

text \<open>
  Claim C7 says that the middleware answers with status 400 whenever the bounds string
  does not consist of exactly four numbers. It does so for a piece that is not numeric,
  for three pieces, for a minimum above its maximum and for a latitude out of range,
  and it passes a well-formed query on; but the query \<^verbatim>\<open>?bounds=1,,3,4\<close> is passed on
  too, because the empty piece converts to 0.
\<close>

theorem validateCoordinates_blank_piece:
  "validateCoordinates \<lparr>lat = None, lng = None, bounds = Some ''1,,3,4''\<rparr> = Next
   \<and> validateCoordinates \<lparr>lat = None, lng = None, bounds = Some ''1,x,3,4''\<rparr>
       = Status400 ''Bounds must be in format \"minLat,minLon,maxLat,maxLon\"''
   \<and> validateCoordinates \<lparr>lat = None, lng = None, bounds = Some ''1,2,3''\<rparr>
       = Status400 ''Bounds must be in format \"minLat,minLon,maxLat,maxLon\"''
   \<and> validateCoordinates \<lparr>lat = None, lng = None, bounds = Some ''3,2,1,4''\<rparr>
       = Status400 ''Invalid bounds: min values must be less than max values''
   \<and> validateCoordinates \<lparr>lat = Some ''91'', lng = None, bounds = None\<rparr>
       = Status400 ''Latitude must be between -90 and 90''
   \<and> validateCoordinates \<lparr>lat = Some ''-1.29'', lng = Some ''36.82'',
                            bounds = Some ''-1.4449,36.6786,-1.1629,37.0990''\<rparr> = Next"
  by (simp add: validateCoordinates_def Let_def js_Number_def trim_def is_ws_def
      parse_nondecimal_def parse_unsigned_decimal_def parse_exponent_def is_digit_def
      digit_in_def all_digits_def isNaN_def js_gt_def js_ge_def)

theorem validateCoordinates_blank_piece_witness:
  "validateCoordinates \<lparr>lat = None, lng = None, bounds = Some ''1,,3,4''\<rparr> = Next"
  using validateCoordinates_blank_piece by (rule conjunct1)

subsection \<open>Live traffic: cache, fetch, store\<close>

lemma fetchTomTomTraffic_state:
  "fetchTomTomTraffic env b s = (r, s1) \<Longrightarrow>
     cache s1 = cache s \<and> traffic_rows s1 = traffic_rows s \<and> incident_rows s1 = incident_rows s"
  unfolding fetchTomTomTraffic_def Let_def
  by (auto split: if_splits flow_response.splits)

lemma storeTrafficData_state:
  "cache (storeTrafficData env td s) = cache s
   \<and> requests (storeTrafficData env td s) = requests s
   \<and> incident_rows (storeTrafficData env td s) = incident_rows s"
  unfolding storeTrafficData_def Let_def
  by (simp split: trafficData.split)

lemma storeTrafficData_rows:
  "traffic_rows (storeTrafficData env td s) =
     traffic_rows s @
       (case td of
          EmptyArray \<Rightarrow> []
        | TrafficObject info \<Rightarrow>
            if store_ok env
            then map (\<lambda>(i, segment). trafficRecord env i segment)
                   (zip [0..<length (td_segments info)] (td_segments info))
            else [])"
  unfolding storeTrafficData_def Let_def
  by (simp split: trafficData.split)

text \<open>
  Claim C2, as stated, fails: on a cache miss the fetched result is cached and
  returned, but nothing is stored when the bulk insert fails (the failure is caught
  inside \<open>storeTrafficData\<close>). Here the provider answers with one segment and the
  insert fails.
\<close>

theorem getLiveTrafficData_store_counterexample:
  "cache (snd (getLiveTrafficData
                \<lparr>tomtom_key = Some ''k'',
                 http_flow = (\<lambda>u. FlowBody (FlowSegments
                    [\<lparr>seg_coordinates = None, seg_currentSpeed = Some 45, seg_freeFlowSpeed = Some 60,
                      seg_currentTravelTime = None, seg_freeFlowTravelTime = None,
                      seg_confidence = None, seg_roadCategory = None\<rparr>])),
                 http_incidents = IncRejected,
                 find_ok = True, store_ok = False, fallback_ok = True, clock = 60000,
                 uuidv4 = (\<lambda>i. ''u''), random = (\<lambda>i. 0)\<rparr>
                None
                \<lparr>cache = Map.empty, traffic_rows = [], incident_rows = [], requests = []\<rparr>))
     ''live-traffic-nairobi''
   = Some (Traffic (TrafficObject
        \<lparr>td_timestamp = 60000, td_source = ''tomtom'', td_message = None,
         td_segments =
           [\<lparr>seg_coordinates = None, seg_currentSpeed = Some 45, seg_freeFlowSpeed = Some 60,
             seg_currentTravelTime = None, seg_freeFlowTravelTime = None,
             seg_confidence = None, seg_roadCategory = None, seg_trafficLevel = ''medium''\<rparr>]\<rparr>))
   \<and> traffic_rows (snd (getLiveTrafficData
                \<lparr>tomtom_key = Some ''k'',
                 http_flow = (\<lambda>u. FlowBody (FlowSegments
                    [\<lparr>seg_coordinates = None, seg_currentSpeed = Some 45, seg_freeFlowSpeed = Some 60,
                      seg_currentTravelTime = None, seg_freeFlowTravelTime = None,
                      seg_confidence = None, seg_roadCategory = None\<rparr>])),
                 http_incidents = IncRejected,
                 find_ok = True, store_ok = False, fallback_ok = True, clock = 60000,
                 uuidv4 = (\<lambda>i. ''u''), random = (\<lambda>i. 0)\<rparr>
                None
                \<lparr>cache = Map.empty, traffic_rows = [], incident_rows = [], requests = []\<rparr>))
   = []"
  by (simp add: getLiveTrafficData_def fetchTomTomTraffic_def processTomTomTrafficData_def
      storeTrafficData_def str_or_def getNairobiBounds_def Let_def calculateTrafficLevel_def
      js_gt_def)

text \<open>
  Claim C2, amended. If the cache holds an entry under the computed key, that value is
  returned and the state is unchanged: no request is sent and no row is written. If the
  cache misses and the fetch succeeds, the fetched result is written to the cache under
  that key and returned, one request has been sent, and the traffic table gains one
  record per segment when the result carries segments and the bulk insert succeeds; it
  is unchanged otherwise.
\<close>

theorem getLiveTrafficData_cache_aside:
  "(cache s (''live-traffic-'' @ str_or b ''nairobi'') = Some v \<longrightarrow>
      getLiveTrafficData env b s = (v, s))
   \<and> (cache s (''live-traffic-'' @ str_or b ''nairobi'') = None
       \<and> fst (fetchTomTomTraffic env (str_or b getNairobiBounds) s) = Inr td \<longrightarrow>
      fst (getLiveTrafficData env b s) = Traffic td
      \<and> cache (snd (getLiveTrafficData env b s))
          = (cache s)(''live-traffic-'' @ str_or b ''nairobi'' \<mapsto> Traffic td)
      \<and> length (requests (snd (getLiveTrafficData env b s))) = length (requests s) + 1
      \<and> incident_rows (snd (getLiveTrafficData env b s)) = incident_rows s
      \<and> traffic_rows (snd (getLiveTrafficData env b s)) =
          traffic_rows s @
            (case td of
               EmptyArray \<Rightarrow> []
             | TrafficObject info \<Rightarrow>
                 if store_ok env
                 then map (\<lambda>(i, segment). trafficRecord env i segment)
                        (zip [0..<length (td_segments info)] (td_segments info))
                 else []))"
proof -
  let ?key = "''live-traffic-'' @ str_or b ''nairobi''"
  have hit: "getLiveTrafficData env b s = (v, s)" if "cache s ?key = Some v"
    using that by (simp add: getLiveTrafficData_def Let_def)
  have miss: "fst (getLiveTrafficData env b s) = Traffic td
      \<and> cache (snd (getLiveTrafficData env b s)) = (cache s)(?key \<mapsto> Traffic td)
      \<and> length (requests (snd (getLiveTrafficData env b s))) = length (requests s) + 1
      \<and> incident_rows (snd (getLiveTrafficData env b s)) = incident_rows s
      \<and> traffic_rows (snd (getLiveTrafficData env b s)) =
          traffic_rows s @
            (case td of
               EmptyArray \<Rightarrow> []
             | TrafficObject info \<Rightarrow>
                 if store_ok env
                 then map (\<lambda>(i, segment). trafficRecord env i segment)
                        (zip [0..<length (td_segments info)] (td_segments info))
                 else [])"
    if m: "cache s ?key = None"
      and f: "fst (fetchTomTomTraffic env (str_or b getNairobiBounds) s) = Inr td"
  proof -
    obtain s1 where f1: "fetchTomTomTraffic env (str_or b getNairobiBounds) s = (Inr td, s1)"
      using f by (cases "fetchTomTomTraffic env (str_or b getNairobiBounds) s") simp
    note st = fetchTomTomTraffic_state [OF f1]
    have rq: "length (requests s1) = length (requests s) + 1"
      using f1 unfolding fetchTomTomTraffic_def Let_def
      by (auto split: if_splits flow_response.splits)
    have g: "getLiveTrafficData env b s =
               (Traffic td, storeTrafficData env td (s1\<lparr>cache := (cache s1)(?key \<mapsto> Traffic td)\<rparr>))"
      using m f1 by (simp add: getLiveTrafficData_def Let_def)
    show ?thesis
      unfolding g using st rq
      by (simp add: storeTrafficData_state storeTrafficData_rows)
  qed
  from hit miss show ?thesis by blast
qed

theorem getLiveTrafficData_cache_aside_witness:
  "getLiveTrafficData
     \<lparr>tomtom_key = Some ''k'', http_flow = (\<lambda>u. FlowRejected), http_incidents = IncRejected,
      find_ok = True, store_ok = True, fallback_ok = True, clock = 60000,
      uuidv4 = (\<lambda>i. ''u''), random = (\<lambda>i. 0)\<rparr>
     (Some ''1,2,3,4'')
     \<lparr>cache = [''live-traffic-1,2,3,4'' \<mapsto> Traffic EmptyArray], traffic_rows = [],
      incident_rows = [], requests = []\<rparr>
   = (Traffic EmptyArray,
      \<lparr>cache = [''live-traffic-1,2,3,4'' \<mapsto> Traffic EmptyArray], traffic_rows = [],
       incident_rows = [], requests = []\<rparr>)
   \<and> map tr_id (traffic_rows (snd (getLiveTrafficData
        \<lparr>tomtom_key = Some ''k'',
         http_flow = (\<lambda>u. FlowBody (FlowSegments
            [\<lparr>seg_coordinates = None, seg_currentSpeed = Some 45, seg_freeFlowSpeed = Some 60,
              seg_currentTravelTime = None, seg_freeFlowTravelTime = None,
              seg_confidence = None, seg_roadCategory = None\<rparr>])),
         http_incidents = IncRejected,
         find_ok = True, store_ok = True, fallback_ok = True, clock = 60000,
         uuidv4 = (\<lambda>i. ''u''), random = (\<lambda>i. 0)\<rparr>
        None
        \<lparr>cache = Map.empty, traffic_rows = [], incident_rows = [], requests = []\<rparr>)))
     = [''u'']"
proof -
  have a: "getLiveTrafficData
     \<lparr>tomtom_key = Some ''k'', http_flow = (\<lambda>u. FlowRejected), http_incidents = IncRejected,
      find_ok = True, store_ok = True, fallback_ok = True, clock = 60000,
      uuidv4 = (\<lambda>i. ''u''), random = (\<lambda>i. 0)\<rparr>
     (Some ''1,2,3,4'')
     \<lparr>cache = [''live-traffic-1,2,3,4'' \<mapsto> Traffic EmptyArray], traffic_rows = [],
      incident_rows = [], requests = []\<rparr>
   = (Traffic EmptyArray,
      \<lparr>cache = [''live-traffic-1,2,3,4'' \<mapsto> Traffic EmptyArray], traffic_rows = [],
       incident_rows = [], requests = []\<rparr>)"
    using getLiveTrafficData_cache_aside
      [of "\<lparr>cache = [''live-traffic-1,2,3,4'' \<mapsto> Traffic EmptyArray], traffic_rows = [],
            incident_rows = [], requests = []\<rparr>" "Some ''1,2,3,4''" "Traffic EmptyArray"]
    by (simp add: str_or_def)
  let ?env = "\<lparr>tomtom_key = Some ''k'',
         http_flow = (\<lambda>u. FlowBody (FlowSegments
            [\<lparr>seg_coordinates = None, seg_currentSpeed = Some 45, seg_freeFlowSpeed = Some 60,
              seg_currentTravelTime = None, seg_freeFlowTravelTime = None,
              seg_confidence = None, seg_roadCategory = None\<rparr>])),
         http_incidents = IncRejected,
         find_ok = True, store_ok = True, fallback_ok = True, clock = 60000,
         uuidv4 = (\<lambda>i. ''u''), random = (\<lambda>i. 0)\<rparr>"
  let ?s = "\<lparr>cache = Map.empty, traffic_rows = [], incident_rows = [], requests = []\<rparr>"
  let ?td = "TrafficObject
        \<lparr>td_timestamp = 60000, td_source = ''tomtom'', td_message = None,
         td_segments =
           [\<lparr>seg_coordinates = None, seg_currentSpeed = Some 45, seg_freeFlowSpeed = Some 60,
             seg_currentTravelTime = None, seg_freeFlowTravelTime = None,
             seg_confidence = None, seg_roadCategory = None, seg_trafficLevel = ''medium''\<rparr>]\<rparr>"
  have f: "fst (fetchTomTomTraffic ?env (str_or None getNairobiBounds) ?s) = Inr ?td"
    by (simp add: fetchTomTomTraffic_def processTomTomTrafficData_def Let_def
        calculateTrafficLevel_def js_gt_def)
  have m: "cache ?s (''live-traffic-'' @ str_or None ''nairobi'') = None" by simp
  have b: "map tr_id (traffic_rows (snd (getLiveTrafficData ?env None ?s))) = [''u'']"
    using getLiveTrafficData_cache_aside [of ?s None _ ?env ?td] m f
    by (simp add: trafficRecord_def)
  from a b show ?thesis by blast
qed

text \<open>
  Claim C3, as stated, fails for the store step: a failing bulk insert is caught inside
  \<open>storeTrafficData\<close>, and \<open>getLiveTrafficData\<close> returns the fetched data, not the
  fallback object. Here the bounds are given, the provider answers with one segment and
  the insert fails.
\<close>

theorem getLiveTrafficData_store_failure_counterexample:
  "fst (getLiveTrafficData
          \<lparr>tomtom_key = Some ''k'',
           http_flow = (\<lambda>u. FlowBody (FlowSegments
              [\<lparr>seg_coordinates = None, seg_currentSpeed = Some 10, seg_freeFlowSpeed = Some 50,
                seg_currentTravelTime = None, seg_freeFlowTravelTime = None,
                seg_confidence = None, seg_roadCategory = None\<rparr>])),
           http_incidents = IncRejected,
           find_ok = True, store_ok = False, fallback_ok = True, clock = 60000,
           uuidv4 = (\<lambda>i. ''u''), random = (\<lambda>i. 0)\<rparr>
          (Some ''-1.4,36.6,-1.1,37.0'')
          \<lparr>cache = Map.empty, traffic_rows = [], incident_rows = [], requests = []\<rparr>)
   = Traffic (TrafficObject
        \<lparr>td_timestamp = 60000, td_source = ''tomtom'', td_message = None,
         td_segments =
           [\<lparr>seg_coordinates = None, seg_currentSpeed = Some 10, seg_freeFlowSpeed = Some 50,
             seg_currentTravelTime = None, seg_freeFlowTravelTime = None,
             seg_confidence = None, seg_roadCategory = None, seg_trafficLevel = ''severe''\<rparr>]\<rparr>)"
  by (simp add: getLiveTrafficData_def fetchTomTomTraffic_def processTomTomTrafficData_def
      storeTrafficData_def str_or_def Let_def calculateTrafficLevel_def js_gt_def)

text \<open>
  Claim C3, amended. \<open>getLiveTrafficData\<close> never propagates an error (it always returns
  a value). When the cache misses and the external fetch fails, it returns the fallback
  object, whose source is \<open>fallback\<close> and whose segment list is empty, and neither the
  cache nor the tables change. When the fetch succeeds and the store step fails, the
  failure is absorbed by the store step: the fetched data is returned and the traffic
  table is unchanged.
\<close>

theorem getLiveTrafficData_failures:
  "(cache s (''live-traffic-'' @ str_or b ''nairobi'') = None
    \<and> fst (fetchTomTomTraffic env (str_or b getNairobiBounds) s) = Inl err \<longrightarrow>
      fst (getLiveTrafficData env b s)
        = Traffic (TrafficObject
            \<lparr>td_timestamp = clock env, td_source = ''fallback'',
             td_message = Some ''Live traffic data unavailable. Using cached data.'',
             td_segments = []\<rparr>)
      \<and> cache (snd (getLiveTrafficData env b s)) = cache s
      \<and> traffic_rows (snd (getLiveTrafficData env b s)) = traffic_rows s
      \<and> incident_rows (snd (getLiveTrafficData env b s)) = incident_rows s)
   \<and> (cache s (''live-traffic-'' @ str_or b ''nairobi'') = None
    \<and> fst (fetchTomTomTraffic env (str_or b getNairobiBounds) s) = Inr td
    \<and> \<not> store_ok env \<longrightarrow>
      fst (getLiveTrafficData env b s) = Traffic td
      \<and> traffic_rows (snd (getLiveTrafficData env b s)) = traffic_rows s)"
proof -
  let ?key = "''live-traffic-'' @ str_or b ''nairobi''"
  have A: "fst (getLiveTrafficData env b s)
        = Traffic (TrafficObject
            \<lparr>td_timestamp = clock env, td_source = ''fallback'',
             td_message = Some ''Live traffic data unavailable. Using cached data.'',
             td_segments = []\<rparr>)
      \<and> cache (snd (getLiveTrafficData env b s)) = cache s
      \<and> traffic_rows (snd (getLiveTrafficData env b s)) = traffic_rows s
      \<and> incident_rows (snd (getLiveTrafficData env b s)) = incident_rows s"
    if m: "cache s ?key = None"
      and f: "fst (fetchTomTomTraffic env (str_or b getNairobiBounds) s) = Inl err"
  proof -
    obtain s1 where f1: "fetchTomTomTraffic env (str_or b getNairobiBounds) s = (Inl err, s1)"
      using f by (cases "fetchTomTomTraffic env (str_or b getNairobiBounds) s") simp
    note st = fetchTomTomTraffic_state [OF f1]
    have g: "getLiveTrafficData env b s = (Traffic (getFallbackTrafficData (clock env)), s1)"
      using m f1 by (simp add: getLiveTrafficData_def Let_def)
    show ?thesis
      unfolding g using st by (simp add: getFallbackTrafficData_def)
  qed
  have B: "fst (getLiveTrafficData env b s) = Traffic td
      \<and> traffic_rows (snd (getLiveTrafficData env b s)) = traffic_rows s"
    if m: "cache s ?key = None"
      and f: "fst (fetchTomTomTraffic env (str_or b getNairobiBounds) s) = Inr td"
      and n: "\<not> store_ok env"
  proof -
    obtain s1 where f1: "fetchTomTomTraffic env (str_or b getNairobiBounds) s = (Inr td, s1)"
      using f by (cases "fetchTomTomTraffic env (str_or b getNairobiBounds) s") simp
    note st = fetchTomTomTraffic_state [OF f1]
    have g: "getLiveTrafficData env b s =
               (Traffic td, storeTrafficData env td (s1\<lparr>cache := (cache s1)(?key \<mapsto> Traffic td)\<rparr>))"
      using m f1 by (simp add: getLiveTrafficData_def Let_def)
    show ?thesis
      unfolding g using st n
      by (simp add: storeTrafficData_rows split: trafficData.split)
  qed
  from A B show ?thesis by blast
qed

theorem getLiveTrafficData_failures_witness:
  "fst (getLiveTrafficData
          \<lparr>tomtom_key = Some ''k'', http_flow = (\<lambda>u. FlowRejected), http_incidents = IncRejected,
           find_ok = True, store_ok = True, fallback_ok = True, clock = 60000,
           uuidv4 = (\<lambda>i. ''u''), random = (\<lambda>i. 0)\<rparr>
          None
          \<lparr>cache = Map.empty, traffic_rows = [], incident_rows = [], requests = []\<rparr>)
   = Traffic (TrafficObject
        \<lparr>td_timestamp = 60000, td_source = ''fallback'',
         td_message = Some ''Live traffic data unavailable. Using cached data.'',
         td_segments = []\<rparr>)
   \<and> fst (getLiveTrafficData
          \<lparr>tomtom_key = Some ''k'', http_flow = (\<lambda>u. FlowBody NoFlow), http_incidents = IncRejected,
           find_ok = True, store_ok = False, fallback_ok = True, clock = 60000,
           uuidv4 = (\<lambda>i. ''u''), random = (\<lambda>i. 0)\<rparr>
          None
          \<lparr>cache = Map.empty, traffic_rows = [], incident_rows = [], requests = []\<rparr>)
   = Traffic EmptyArray"
proof -
  let ?s = "\<lparr>cache = Map.empty, traffic_rows = [], incident_rows = [], requests = []\<rparr>"
  let ?e1 = "\<lparr>tomtom_key = Some ''k'', http_flow = (\<lambda>u. FlowRejected), http_incidents = IncRejected,
           find_ok = True, store_ok = True, fallback_ok = True, clock = 60000,
           uuidv4 = (\<lambda>i. ''u''), random = (\<lambda>i. 0)\<rparr>"
  let ?e2 = "\<lparr>tomtom_key = Some ''k'', http_flow = (\<lambda>u. FlowBody NoFlow), http_incidents = IncRejected,
           find_ok = True, store_ok = False, fallback_ok = True, clock = 60000,
           uuidv4 = (\<lambda>i. ''u''), random = (\<lambda>i. 0)\<rparr>"
  have m: "cache ?s (''live-traffic-'' @ str_or None ''nairobi'') = None" by simp
  have f1: "fst (fetchTomTomTraffic ?e1 (str_or None getNairobiBounds) ?s) = Inl RequestError"
    by (simp add: fetchTomTomTraffic_def Let_def)
  have f2: "fst (fetchTomTomTraffic ?e2 (str_or None getNairobiBounds) ?s) = Inr EmptyArray"
    by (simp add: fetchTomTomTraffic_def processTomTomTrafficData_def Let_def)
  have a: "fst (getLiveTrafficData ?e1 None ?s)
     = Traffic (TrafficObject
        \<lparr>td_timestamp = 60000, td_source = ''fallback'',
         td_message = Some ''Live traffic data unavailable. Using cached data.'',
         td_segments = []\<rparr>)"
    using getLiveTrafficData_failures [of ?s None ?e1 RequestError] m f1 by simp
  have b: "fst (getLiveTrafficData ?e2 None ?s) = Traffic EmptyArray"
    using getLiveTrafficData_failures [of ?s None ?e2 _ EmptyArray] m f2 by simp
  from a b show ?thesis by blast
qed

end
